theory Spec2Isabelle
  imports Complex_Main "HOL-Library.Word" "HOL-Library.Char_ord" "HOL-Library.List_Lexorder"
begin

unbundle bit_operations_syntax

section \<open>The on-chain registry: contract TruthProof\<close>

text \<open>
  Solidity's \<^verbatim>\<open>bytes32\<close>, \<^verbatim>\<open>address\<close> and \<^verbatim>\<open>uint256\<close> are machine words. An array length
  and an array index are natural numbers below \<open>2 ^ 256\<close>; the checked arithmetic of
  Solidity 0.8 (a panic instead of a wrap-around) is written out where the contract
  computes with them.
\<close>

type_synonym bytes32 = "256 word"
type_synonym address = "160 word"
type_synonym uint256 = "256 word"

record FileVerification =
  hash :: bytes32
  submitter :: address
  timestamp :: uint256
  exists :: bool

datatype event = HashSubmitted bytes32 address uint256

text \<open>
  The contract's storage: the mapping (every key of a Solidity mapping reads as the
  zero-valued struct until it is written), the enumeration array, and the log of the
  emitted events.
\<close>

record TruthProof =
  fileVerifications :: "bytes32 \<Rightarrow> FileVerification"
  allHashes :: "bytes32 list"
  events :: "event list"

text \<open>\<^verbatim>\<open>msg.sender\<close> and \<^verbatim>\<open>block.timestamp\<close> of a call.\<close>

record msg_env =
  sender :: address
  block_timestamp :: uint256

datatype revert = Revert string | Panic nat

definition zero_verification :: FileVerification where
  "zero_verification = \<lparr>hash = 0, submitter = 0, timestamp = 0, exists = False\<rparr>"

definition deployed :: TruthProof where
  "deployed = \<lparr>fileVerifications = (\<lambda>h. zero_verification), allHashes = [], events = []\<rparr>"

text \<open>
  \<^verbatim>\<open>submitHash\<close>: the modifier \<^verbatim>\<open>hashNotExists\<close> runs first, then the zero check of the
  body, then the two writes and the event.
\<close>

definition submitHash :: "msg_env \<Rightarrow> bytes32 \<Rightarrow> TruthProof \<Rightarrow> revert + TruthProof" where
  "submitHash e h s =
     (if exists (fileVerifications s h) then Inl (Revert ''Hash already exists'')
      else if h = 0 then Inl (Revert ''Invalid hash'')
      else
        let verification =
              \<lparr>hash = h, submitter = sender e, timestamp = block_timestamp e, exists = True\<rparr>
        in Inr (s\<lparr>fileVerifications := (fileVerifications s)(h := verification),
                  allHashes := allHashes s @ [h],
                  events := events s @ [HashSubmitted h (sender e) (block_timestamp e)]\<rparr>))"

definition verifyHash :: "bytes32 \<Rightarrow> TruthProof \<Rightarrow> bool \<times> address \<times> uint256" where
  "verifyHash h s =
     (let verification = fileVerifications s h
      in (exists verification, submitter verification, timestamp verification))"

definition getTotalHashes :: "TruthProof \<Rightarrow> nat" where
  "getTotalHashes s = length (allHashes s)"

text \<open>
  A transaction that reverts leaves the storage as it was; \<open>ledger\<close> runs a sequence of
  \<^verbatim>\<open>submitHash\<close> transactions, each with its own sender and block time.
\<close>

definition transact :: "msg_env \<times> bytes32 \<Rightarrow> TruthProof \<Rightarrow> TruthProof" where
  "transact c s = (case submitHash (fst c) (snd c) s of Inl r \<Rightarrow> s | Inr s' \<Rightarrow> s')"

fun ledger :: "(msg_env \<times> bytes32) list \<Rightarrow> TruthProof \<Rightarrow> TruthProof" where
  "ledger [] s = s"
| "ledger (c # cs) s = ledger cs (transact c s)"

text \<open>
  \<^verbatim>\<open>getRecentHashes\<close>: the result array is allocated zero-filled and written by index.
  The subtraction, the addition and the two array accesses are checked: \<open>Panic 17\<close> is
  Solidity's arithmetic panic (0x11), \<open>Panic 50\<close> its index panic (0x32).
\<close>

function getRecentHashes_loop ::
  "bytes32 list \<Rightarrow> nat \<Rightarrow> nat \<Rightarrow> nat \<Rightarrow> bytes32 list \<Rightarrow> revert + bytes32 list" where
  "getRecentHashes_loop hashes totalHashes count i result =
     (if i < count then
        (if totalHashes < count then Inl (Panic 17)
         else if 2 ^ 256 \<le> totalHashes - count + i then Inl (Panic 17)
         else if length hashes \<le> totalHashes - count + i then Inl (Panic 50)
         else if length result \<le> i then Inl (Panic 50)
         else getRecentHashes_loop hashes totalHashes count (i + 1)
                (result[i := hashes ! (totalHashes - count + i)]))
      else Inr result)"
  by pat_completeness auto
termination
  by (relation "measure (\<lambda>(hashes, totalHashes, count, i, result). count - i)") auto

definition getRecentHashes :: "uint256 \<Rightarrow> TruthProof \<Rightarrow> revert + bytes32 list" where
  "getRecentHashes n s =
     (let totalHashes = length (allHashes s);
          count = (if unat n > totalHashes then totalHashes else unat n);
          result = replicate count 0
      in getRecentHashes_loop (allHashes s) totalHashes count 0 result)"

section \<open>The content hash\<close>

text \<open>
  Both sides hash with \<^verbatim>\<open>ethers.sha256\<close>, a function of the ethers library: SHA-256
  (FIPS 180-4) of the bytes, rendered by the library's \<^verbatim>\<open>hexlify\<close>. The digest is computed
  here on 32-bit words: padding to a multiple of 64 bytes, the message schedule of 64
  words for each block, and 64 rounds of the compression function.
\<close>

type_synonym byte = "8 word"
type_synonym word32 = "32 word"

definition rotr :: "nat \<Rightarrow> word32 \<Rightarrow> word32" where
  "rotr n x = drop_bit n x OR push_bit (32 - n) x"

definition Ch :: "word32 \<Rightarrow> word32 \<Rightarrow> word32 \<Rightarrow> word32" where
  "Ch x y z = (x AND y) XOR (NOT x AND z)"

definition Maj :: "word32 \<Rightarrow> word32 \<Rightarrow> word32 \<Rightarrow> word32" where
  "Maj x y z = (x AND y) XOR (x AND z) XOR (y AND z)"

definition Sigma0 :: "word32 \<Rightarrow> word32" where
  "Sigma0 x = rotr 2 x XOR rotr 13 x XOR rotr 22 x"

definition Sigma1 :: "word32 \<Rightarrow> word32" where
  "Sigma1 x = rotr 6 x XOR rotr 11 x XOR rotr 25 x"

definition sigma0 :: "word32 \<Rightarrow> word32" where
  "sigma0 x = rotr 7 x XOR rotr 18 x XOR drop_bit 3 x"

definition sigma1 :: "word32 \<Rightarrow> word32" where
  "sigma1 x = rotr 17 x XOR rotr 19 x XOR drop_bit 10 x"

text \<open>
  The sixty-four round constants are the first 32 bits of the fractional parts of the cube
  roots of the first sixty-four primes (FIPS 180-4, section 4.2.2): for a prime \<open>p\<close>, the
  integer cube root of \<open>p * 2 ^ 96\<close>, found bit by bit from the top, modulo \<open>2 ^ 32\<close>.
\<close>

fun root3 :: "int \<Rightarrow> nat \<Rightarrow> int \<Rightarrow> int" where
  "root3 n 0 r = r"
| "root3 n (Suc k) r = root3 n k (if (r + 2 ^ k) ^ 3 \<le> n then r + 2 ^ k else r)"

definition is_prime :: "nat \<Rightarrow> bool" where
  "is_prime p = (1 < p \<and> list_all (\<lambda>d. p mod d \<noteq> 0) [2 ..< p])"

definition SHA256_K :: "word32 list" where
  "SHA256_K = map (\<lambda>p. of_int (root3 (int p * 2 ^ 96) 36 0)) (filter is_prime [2 ..< 312])"

record sha_state =
  sa :: word32
  sb :: word32
  sc :: word32
  sd :: word32
  se :: word32
  sf :: word32
  sg :: word32
  sh :: word32

definition SHA256_IV :: sha_state where
  "SHA256_IV = \<lparr>sa = 0x6a09e667, sb = 0xbb67ae85, sc = 0x3c6ef372, sd = 0xa54ff53a,
                 se = 0x510e527f, sf = 0x9b05688c, sg = 0x1f83d9ab, sh = 0x5be0cd19\<rparr>"

definition sha_pad :: "byte list \<Rightarrow> byte list" where
  "sha_pad m =
     m @ [0x80] @ replicate ((119 - length m mod 64) mod 64) 0 @
     map (\<lambda>i. ucast (drop_bit (8 * (7 - i)) (of_nat (8 * length m) :: 64 word))) [0 ..< 8]"

fun be32 :: "byte list \<Rightarrow> word32" where
  "be32 (b0 # b1 # b2 # b3 # bs) =
     push_bit 24 (ucast b0) OR push_bit 16 (ucast b1) OR push_bit 8 (ucast b2) OR ucast b3"
| "be32 bs = 0"

fun block_words :: "nat \<Rightarrow> byte list \<Rightarrow> word32 list" where
  "block_words 0 bs = []"
| "block_words (Suc n) bs = be32 bs # block_words n (drop 4 bs)"

fun schedule :: "nat \<Rightarrow> word32 list \<Rightarrow> word32 list" where
  "schedule 0 w = w"
| "schedule (Suc n) w =
     schedule n (w @ [sigma1 (w ! (length w - 2)) + w ! (length w - 7) +
                      sigma0 (w ! (length w - 15)) + w ! (length w - 16)])"

definition sha_round :: "sha_state \<Rightarrow> word32 \<times> word32 \<Rightarrow> sha_state" where
  "sha_round s kw =
     (let T1 = sh s + Sigma1 (se s) + Ch (se s) (sf s) (sg s) + fst kw + snd kw;
          T2 = Sigma0 (sa s) + Maj (sa s) (sb s) (sc s)
      in \<lparr>sa = T1 + T2, sb = sa s, sc = sb s, sd = sc s,
          se = sd s + T1, sf = se s, sg = sf s, sh = sg s\<rparr>)"

definition sha_compress :: "sha_state \<Rightarrow> byte list \<Rightarrow> sha_state" where
  "sha_compress s block =
     (let w = schedule 48 (block_words 16 block);
          t = foldl sha_round s (zip SHA256_K w)
      in \<lparr>sa = sa s + sa t, sb = sb s + sb t, sc = sc s + sc t, sd = sd s + sd t,
          se = se s + se t, sf = sf s + sf t, sg = sg s + sg t, sh = sh s + sh t\<rparr>)"

fun sha_blocks :: "nat \<Rightarrow> sha_state \<Rightarrow> byte list \<Rightarrow> sha_state" where
  "sha_blocks 0 s bs = s"
| "sha_blocks (Suc n) s bs = sha_blocks n (sha_compress s (take 64 bs)) (drop 64 bs)"

definition word32_bytes :: "word32 \<Rightarrow> byte list" where
  "word32_bytes w = [ucast (drop_bit 24 w), ucast (drop_bit 16 w), ucast (drop_bit 8 w), ucast w]"

definition sha256 :: "byte list \<Rightarrow> byte list" where
  "sha256 m =
     (let p = sha_pad m; s = sha_blocks (length p div 64) SHA256_IV p
      in concat (map word32_bytes [sa s, sb s, sc s, sd s, se s, sf s, sg s, sh s]))"

text \<open>
  \<^verbatim>\<open>hexlify\<close> of ethers: the characters \<^verbatim>\<open>0x\<close>, then two lower-case hexadecimal digits
  for every byte.
\<close>

definition hexdigit :: "nat \<Rightarrow> char" where
  "hexdigit n = ''0123456789abcdef'' ! (n mod 16)"

definition hexlify :: "byte list \<Rightarrow> string" where
  "hexlify bs = ''0x'' @ concat (map (\<lambda>b. [hexdigit (unat b div 16), hexdigit (unat b mod 16)]) bs)"

text \<open>
  \<^verbatim>\<open>generateFileHash\<close> of the backend (the upload and the verification routes hold the
  same three lines): the buffer is copied into a \<^verbatim>\<open>Uint8Array\<close> and handed to
  \<^verbatim>\<open>ethers.sha256\<close>, which returns the digest as a hex string of ethers.
\<close>

definition ethers_sha256 :: "byte list \<Rightarrow> string" where
  "ethers_sha256 bytes = hexlify (sha256 bytes)"

definition generateFileHash :: "byte list \<Rightarrow> string" where
  "generateFileHash buffer = (let uint8Array = buffer; hash = ethers_sha256 uint8Array in hash)"

text \<open>
  \<^verbatim>\<open>BlockchainService.generateFileHash\<close> of the client: a \<^verbatim>\<open>FileReader\<close> reads the file; its
  outcome is either an error (the promise rejects with it) or the bytes, which are hashed
  as on the server.
\<close>

definition BlockchainService_generateFileHash :: "string + byte list \<Rightarrow> string + string" where
  "BlockchainService_generateFileHash readAsArrayBuffer =
     (case readAsArrayBuffer of
        Inl error \<Rightarrow> Inl error
      | Inr arrayBuffer \<Rightarrow> (let uint8Array = arrayBuffer; hash = ethers_sha256 uint8Array in Inr hash))"


section \<open>What ethers does with a hash, an address and a number\<close>

text \<open>
  The contract binding is built from the ABI line \<^verbatim>\<open>function verifyHash(bytes32 hash)\<close>
  (and \<^verbatim>\<open>submitHash(bytes32 hash)\<close>), so ethers encodes the JavaScript string it is given as
  \<^verbatim>\<open>bytes32\<close> before any request is sent: the string must be \<^verbatim>\<open>0x\<close> followed by pairs of
  hexadecimal digits (the library's pattern is case-insensitive) and must denote exactly
  32 bytes; any other string makes the call throw.
\<close>

definition hexval :: "char \<Rightarrow> nat option" where
  "hexval c =
     (let n = (of_char c :: nat)
      in if 48 \<le> n \<and> n \<le> 57 then Some (n - 48)
         else if 97 \<le> n \<and> n \<le> 102 then Some (n - 87)
         else if 65 \<le> n \<and> n \<le> 70 then Some (n - 55)
         else None)"

fun hex_bytes :: "string \<Rightarrow> byte list option" where
  "hex_bytes [] = Some []"
| "hex_bytes [c] = None"
| "hex_bytes (c # d # cs) =
     (case hexval c of
        None \<Rightarrow> None
      | Some h \<Rightarrow>
          (case hexval d of
             None \<Rightarrow> None
           | Some l \<Rightarrow>
               (case hex_bytes cs of
                  None \<Rightarrow> None
                | Some bs \<Rightarrow> Some (of_nat (16 * h + l) # bs))))"

definition getBytes :: "string \<Rightarrow> string + byte list" where
  "getBytes v =
     (if take 2 v = ''0x'' \<or> take 2 v = ''0X'' then
        (case hex_bytes (drop 2 v) of
           Some bs \<Rightarrow> Inr bs
         | None \<Rightarrow> Inl ''invalid BytesLike value'')
      else Inl ''invalid BytesLike value'')"

definition encode_bytes32 :: "string \<Rightarrow> string + bytes32" where
  "encode_bytes32 v =
     (case getBytes v of
        Inl e \<Rightarrow> Inl e
      | Inr data \<Rightarrow>
          if length data \<noteq> 32 then Inl ''incorrect data length''
          else Inr (foldl (\<lambda>w b. push_bit 8 w OR ucast b) 0 data))"

text \<open>
  \<^verbatim>\<open>Number(result[2])\<close> turns the \<^verbatim>\<open>uint256\<close> (a BigInt) into a JavaScript number, an IEEE
  double: exact up to 53 significant bits, rounded to the nearest double (ties to even)
  above. The result is again a natural number.
\<close>

fun bitlen :: "nat \<Rightarrow> nat" where
  "bitlen n = (if n = 0 then 0 else Suc (bitlen (n div 2)))"

definition Number :: "nat \<Rightarrow> nat" where
  "Number n =
     (if bitlen n \<le> 53 then n
      else
        let e = bitlen n - 53; q = n div 2 ^ e; r = n mod 2 ^ e; half = 2 ^ (e - 1)
        in (if half < r \<or> (r = half \<and> odd q) then q + 1 else q) * 2 ^ e)"

section \<open>The backend's world: Firestore, Cloudinary, the chain\<close>

datatype verification_status = Pending | Verified | Failed

text \<open>A document of the collection \<^verbatim>\<open>files\<close>, with the fields the routes write.\<close>

record file_record =
  userId :: string
  fileName :: string
  fileHash :: string
  fileSize :: nat
  fileType :: string
  uploadTime :: string
  downloadURL :: string
  publicId :: string
  walletAddress :: string
  verificationStatus :: verification_status
  storagePath :: string
  createdAt :: string
  updatedAt :: string
  transactionHash :: "string option"
  verifiedAt :: "string option"

text \<open>A document of the collection \<^verbatim>\<open>users\<close>.\<close>

record user_record =
  userName :: string
  userEmail :: string
  userWalletAddress :: string
  encryptedWallet :: string

record WalletInfo =
  wi_address :: string
  privateKey :: string
  mnemonic :: string

record cloudinary_result =
  secure_url :: string
  public_id :: string

text \<open>
  What the routes change: the two Firestore collections (each in the order in which
  Firestore returns its documents, by document id), the assets stored at Cloudinary, and
  the storage of the deployed contract.
\<close>

record world =
  files :: "(string \<times> file_record) list"
  users :: "(string \<times> user_record) list"
  assets :: "(string \<times> byte list) list"
  registry :: TruthProof

text \<open>The calls a route makes to Firestore and Firebase Auth; each may be rejected.\<close>

datatype db_call =
    FilesWhereHashUser string string
  | FilesWhereHash string
  | FilesWhereUser string
  | FilesGet string
  | FilesAdd
  | FilesUpdate string
  | FilesDelete string
  | FilesBatchDelete string
  | UsersGet string
  | UsersDelete string
  | AuthDeleteUser string

datatype file_metadata = FileMetadata string nat string string "string option"

record verification =
  vr_hash :: string
  vr_exists :: bool
  vr_submitter :: string
  vr_timestamp :: nat
  transactionUrl :: "string option"
  fileMetadata :: "file_metadata option"

datatype batch_item = ItemResult verification | ItemError string string

record batch_summary =
  n_total :: nat
  n_verified :: nat
  n_notFound :: nat
  n_errors :: nat

text \<open>
  The JSON bodies the routes answer with; \<open>ErrorPage\<close> is the page that Express's own
  error handler shows for an error with the given message.
\<close>

datatype body =
    Error string "string option"
  | ValidationErrors "string list"
  | Duplicate string string string
  | Uploaded string file_record
  | Updated string "string list"
  | Message string
  | PlainMessage string
  | Submitted string string string
  | VerificationBody verification
  | BatchBody "batch_item list" batch_summary
  | ErrorPage string

record response =
  statusCode :: nat
  body :: body

definition respond :: "nat \<Rightarrow> body \<Rightarrow> response" where
  "respond c b = \<lparr>statusCode = c, body = b\<rparr>"

text \<open>
  What a request finds around it: the configuration read at start-up (\<^verbatim>\<open>db\<close> and
  \<^verbatim>\<open>contract\<close> are \<^verbatim>\<open>null\<close> when unconfigured, modelled as \<open>False\<close>), the failures of the
  external services during the request, the values those services choose (a new document
  id, the Cloudinary answer, the receipt hash, the block time), the clock readings
  of the request, and the library functions that are not part of the repository:
  the AES decryption of a wallet blob, the address of a private key, and the rendering
  of an address as a string. \<open>next_error\<close> is the answer of the application to an error
  that a middleware passes on (\<^verbatim>\<open>next(err)\<close>): the routers have no error middleware of
  their own, and the application file is not part of the repository's sources.
\<close>

record env =
  db :: bool
  db_fault :: "db_call \<Rightarrow> string option"
  newDocId :: string
  cloud_fault :: "string option"
  cloud_result :: cloudinary_result
  clock :: "nat \<Rightarrow> string"
  contract :: bool
  rpc_fault :: "string option"
  block_time :: uint256
  receipt_hash :: string
  wallet_address :: "string \<Rightarrow> address option"
  render_address :: "address \<Rightarrow> string"
  AES_decrypt :: "string \<Rightarrow> string \<Rightarrow> string + WalletInfo"
  NETWORK :: "string option"
  ENCRYPTION_SECRET :: "string option"
  next_error :: "string \<Rightarrow> response"

subsection \<open>Firestore and Cloudinary calls\<close>

text \<open>
  A call that Firestore rejects returns its message on the left (the \<^verbatim>\<open>await\<close> throws);
  a query returns the matching documents in document order.
\<close>

definition firestore_call :: "env \<Rightarrow> db_call \<Rightarrow> 'a \<Rightarrow> string + 'a" where
  "firestore_call ev c result = (case db_fault ev c of Some e \<Rightarrow> Inl e | None \<Rightarrow> Inr result)"

definition doc_get :: "string \<Rightarrow> (string \<times> 'a) list \<Rightarrow> 'a option" where
  "doc_get i docs = map_of docs i"

definition doc_update :: "string \<Rightarrow> ('a \<Rightarrow> 'a) \<Rightarrow> (string \<times> 'a) list \<Rightarrow> (string \<times> 'a) list" where
  "doc_update i f docs = map (\<lambda>d. if fst d = i then (fst d, f (snd d)) else d) docs"


definition doc_add :: "string \<Rightarrow> 'a \<Rightarrow> (string \<times> 'a) list \<Rightarrow> (string \<times> 'a) list" where
  "doc_add i r docs = insort_key fst (i, r) docs"

text \<open>
  \<^verbatim>\<open>cloudinary.uploader.upload_stream\<close>: either Cloudinary reports an error, or it stores
  the bytes as a new asset and answers with its URL and public id.
\<close>

definition upload_stream :: "env \<Rightarrow> byte list \<Rightarrow> world \<Rightarrow> (string + cloudinary_result) \<times> world" where
  "upload_stream ev buf w =
     (case cloud_fault ev of
        Some error \<Rightarrow> (Inl error, w)
      | None \<Rightarrow>
          (Inr (cloud_result ev),
           w\<lparr>assets := assets w @ [(public_id (cloud_result ev), buf)]\<rparr>))"

definition deleteFromCloudinary :: "env \<Rightarrow> string \<Rightarrow> world \<Rightarrow> (string + unit) \<times> world" where
  "deleteFromCloudinary ev pid w =
     (case cloud_fault ev of
        Some error \<Rightarrow> (Inl error, w)
      | None \<Rightarrow> (Inr (), w\<lparr>assets := filter (\<lambda>a. fst a \<noteq> pid) (assets w)\<rparr>))"

section \<open>The file routes\<close>

text \<open>The file of a multipart request, as multer's memory storage hands it to the route.\<close>

record upload_file =
  originalname :: string
  mimetype :: string
  size_bytes :: nat
  buffer :: "byte list option"

text \<open>
  The middleware \<^verbatim>\<open>upload.single('file')\<close> in front of the upload route: the file filter
  on the declared media type and the size limit of 50 MB. A file that it refuses ends the
  request with multer's error, and the route's function is not called. The file filter of
  the tamper routes has the same list of types.
\<close>

definition allowedTypes :: "string list" where
  "allowedTypes =
     [''image/jpeg'', ''image/png'', ''image/gif'', ''application/pdf'', ''application/msword'',
      ''application/vnd.openxmlformats-officedocument.wordprocessingml.document'',
      ''video/mp4'', ''video/avi'', ''video/mov'', ''audio/mpeg'', ''audio/wav'', ''audio/m4a'']"

definition upload_single :: "upload_file \<Rightarrow> string option" where
  "upload_single file =
     (if mimetype file \<notin> set allowedTypes then Some ''Invalid file type''
      else if 50 * 1024 * 1024 < size_bytes file then Some ''File too large''
      else None)"

definition firebase_not_configured :: response where
  "firebase_not_configured =
     respond 500 (Error ''Firebase not configured''
       (Some ''Please configure Firebase Admin SDK environment variables''))"

text \<open>
  \<^verbatim>\<open>POST /upload\<close>, after the authentication middleware has put the user's id into the
  request. The statements of the route in their order: the three early returns, the hash,
  the upload to Cloudinary inside its own \<^verbatim>\<open>try\<close>, then the duplicate query, the listing
  of the user's files (read for the log only), the user's document, and the new record.
  An exception of a Firestore call is caught by the route's outer \<^verbatim>\<open>catch\<close>.
\<close>

definition upload_record ::
  "env \<Rightarrow> string \<Rightarrow> upload_file \<Rightarrow> string \<Rightarrow> cloudinary_result \<Rightarrow> world \<Rightarrow> response \<times> world" where
  "upload_record ev uid file digest cloudinaryResult w =
     (let caught = (\<lambda>message. (respond 500 (Error ''Failed to upload file'' (Some message)), w))
      in case firestore_call ev (FilesWhereHashUser digest uid)
                (take 1 (filter (\<lambda>d. fileHash (snd d) = digest \<and> userId (snd d) = uid) (files w))) of
           Inl message \<Rightarrow> caught message
         | Inr (existing # rest) \<Rightarrow>
             (respond 409 (Duplicate ''File already exists'' (fst existing) (fileName (snd existing))), w)
         | Inr [] \<Rightarrow>
             (case firestore_call ev (FilesWhereUser uid)
                     (filter (\<lambda>d. userId (snd d) = uid) (files w)) of
                Inl message \<Rightarrow> caught message
              | Inr allUserFiles \<Rightarrow>
                  (case firestore_call ev (UsersGet uid) (doc_get uid (users w)) of
                     Inl message \<Rightarrow> caught message
                   | Inr userData \<Rightarrow>
                       (let fileRecord =
                              \<lparr>userId = uid,
                               fileName = originalname file,
                               fileHash = digest,
                               fileSize = size_bytes file,
                               fileType = mimetype file,
                               uploadTime = clock ev 0,
                               downloadURL = secure_url cloudinaryResult,
                               publicId = public_id cloudinaryResult,
                               walletAddress =
                                 (case userData of
                                    None \<Rightarrow> ''unknown''
                                  | Some u \<Rightarrow>
                                      if userWalletAddress u = [] then ''unknown''
                                      else userWalletAddress u),
                               verificationStatus = Pending,
                               storagePath = ''cloudinary:'' @ public_id cloudinaryResult,
                               createdAt = clock ev 1,
                               updatedAt = clock ev 2,
                               transactionHash = None,
                               verifiedAt = None\<rparr>
                        in case firestore_call ev FilesAdd (newDocId ev) of
                             Inl message \<Rightarrow> caught message
                           | Inr docRef \<Rightarrow>
                               (respond 201 (Uploaded docRef fileRecord),
                                w\<lparr>files := doc_add docRef fileRecord (files w)\<rparr>)))))"

definition upload_route :: "env \<Rightarrow> string \<Rightarrow> upload_file option \<Rightarrow> world \<Rightarrow> response \<times> world" where
  "upload_route ev uid req_file w =
     (case req_file of
        None \<Rightarrow> (respond 400 (Error ''No file provided'' None), w)
      | Some file \<Rightarrow>
          (case upload_single file of
             Some multerError \<Rightarrow> (next_error ev multerError, w)
           | None \<Rightarrow>
               if \<not> db ev then (firebase_not_configured, w)
               else
                 (case buffer file of
                    None \<Rightarrow> (respond 400 (Error ''File buffer is missing'' None), w)
                  | Some buf \<Rightarrow>
                      (let digest = generateFileHash buf
                       in case upload_stream ev buf w of
                            (Inl cloudinaryError, w1) \<Rightarrow>
                              (respond 500 (Error ''Failed to upload to Cloudinary''
                                 (Some cloudinaryError)), w1)
                          | (Inr cloudinaryResult, w1) \<Rightarrow>
                              upload_record ev uid file digest cloudinaryResult w1))))"






section \<open>The verification routes\<close>

text \<open>
  A call of a contract function through ethers: the argument is encoded first, then the
  request goes to the JSON-RPC endpoint, which may fail; a call that reaches the
  contract runs it on the registry's storage. A transaction is signed by the wallet of the
  given private key and stamped with the time of its block.
\<close>

definition contract_verifyHash :: "env \<Rightarrow> string \<Rightarrow> world \<Rightarrow> string + bool \<times> string \<times> uint256" where
  "contract_verifyHash ev hashStr w =
     (case encode_bytes32 hashStr of
        Inl e \<Rightarrow> Inl e
      | Inr h \<Rightarrow>
          (case rpc_fault ev of
             Some e \<Rightarrow> Inl e
           | None \<Rightarrow>
               (case verifyHash h (registry w) of
                  (ex, sub, ts) \<Rightarrow> Inr (ex, render_address ev sub, ts))))"

definition revert_message :: "revert \<Rightarrow> string" where
  "revert_message r = (case r of Revert reason \<Rightarrow> reason | Panic n \<Rightarrow> ''panic'')"

definition contract_submitHash :: "env \<Rightarrow> string \<Rightarrow> string \<Rightarrow> world \<Rightarrow> (string + string) \<times> world" where
  "contract_submitHash ev hashStr key w =
     (case wallet_address ev key of
        None \<Rightarrow> (Inl ''invalid private key'', w)
      | Some signer \<Rightarrow>
          (case encode_bytes32 hashStr of
             Inl e \<Rightarrow> (Inl e, w)
           | Inr h \<Rightarrow>
               (case rpc_fault ev of
                  Some e \<Rightarrow> (Inl e, w)
                | None \<Rightarrow>
                    (case submitHash \<lparr>sender = signer, block_timestamp = block_time ev\<rparr> h
                            (registry w) of
                       Inl r \<Rightarrow> (Inl (revert_message r), w)
                     | Inr registry' \<Rightarrow> (Inr (receipt_hash ev), w\<lparr>registry := registry'\<rparr>)))))"

definition submitHashToBlockchain ::
  "env \<Rightarrow> string \<Rightarrow> string \<Rightarrow> world \<Rightarrow> (string + string) \<times> world" where
  "submitHashToBlockchain ev hashStr key w =
     (if \<not> contract ev then
        (Inl ''Contract not configured. Please set CONTRACT_ADDRESS in your environment variables.'', w)
      else
        (case contract_submitHash ev hashStr key w of
           (Inl error, w') \<Rightarrow> (Inl ''Failed to submit hash to blockchain'', w')
         | (Inr receipt, w') \<Rightarrow> (Inr receipt, w')))"

text \<open>
  \<^verbatim>\<open>verifyHashOnBlockchain\<close>: the mock result when the contract is not configured, the
  decoded answer of the contract, and the mock result again from the \<^verbatim>\<open>catch\<close>. The function
  has no way to throw, so its result type has no error.
\<close>

record onchain =
  oc_exists :: bool
  oc_submitter :: string
  oc_timestamp :: nat

definition verifyHashOnBlockchain :: "env \<Rightarrow> string \<Rightarrow> world \<Rightarrow> onchain" where
  "verifyHashOnBlockchain ev hashStr w =
     (if \<not> contract ev then \<lparr>oc_exists = False, oc_submitter = [], oc_timestamp = 0\<rparr>
      else
        (case contract_verifyHash ev hashStr w of
           Inr (r0, r1, r2) \<Rightarrow>
             \<lparr>oc_exists = r0, oc_submitter = r1, oc_timestamp = Number (unat r2)\<rparr>
         | Inl error \<Rightarrow> \<lparr>oc_exists = False, oc_submitter = [], oc_timestamp = 0\<rparr>))"

definition getTransactionUrl :: "env \<Rightarrow> string \<Rightarrow> string" where
  "getTransactionUrl ev txHash =
     (let network = (case NETWORK ev of None \<Rightarrow> ''mumbai'' | Some n \<Rightarrow> if n = [] then ''mumbai'' else n)
      in if network = ''mumbai'' then ''https://mumbai.polygonscan.com/tx/'' @ txHash
         else if network = ''sepolia'' then ''https://sepolia.etherscan.io/tx/'' @ txHash
         else ''https://etherscan.io/tx/'' @ txHash)"

text \<open>
  The validator \<^verbatim>\<open>isLength({ min: 64, max: 64 })\<close> of the two public routes.
\<close>

definition isLength64 :: "string \<Rightarrow> bool" where
  "isLength64 hashStr = (64 \<le> length hashStr \<and> length hashStr \<le> 64)"

text \<open>
  The body of the per-hash work that \<^verbatim>\<open>/verify\<close> and the loop of \<^verbatim>\<open>/verify-batch\<close> share:
  the registry is asked, then Firestore for one record with this hash. \<^verbatim>\<open>db\<close> being
  \<^verbatim>\<open>null\<close> makes \<^verbatim>\<open>db.collection\<close> throw. \<open>with_user\<close> tells whether the metadata carries
  the uploader's id (it does in \<^verbatim>\<open>/verify\<close> only).
\<close>

definition verify_one :: "env \<Rightarrow> bool \<Rightarrow> string \<Rightarrow> world \<Rightarrow> string + verification" where
  "verify_one ev with_user hashStr w =
     (let blockchainResult = verifyHashOnBlockchain ev hashStr w
      in if \<not> db ev then Inl ''Cannot read properties of null (reading 'collection')''
         else
           (case firestore_call ev (FilesWhereHash hashStr)
                   (take 1 (filter (\<lambda>d. fileHash (snd d) = hashStr) (files w))) of
              Inl message \<Rightarrow> Inl message
            | Inr fileDoc \<Rightarrow>
                Inr \<lparr>vr_hash = hashStr,
                     vr_exists = oc_exists blockchainResult,
                     vr_submitter = oc_submitter blockchainResult,
                     vr_timestamp = oc_timestamp blockchainResult,
                     transactionUrl =
                       (if oc_exists blockchainResult then Some (getTransactionUrl ev hashStr) else None),
                     fileMetadata =
                       (case fileDoc of
                          [] \<Rightarrow> None
                        | d # ds \<Rightarrow>
                            Some (FileMetadata (fileName (snd d)) (fileSize (snd d)) (fileType (snd d))
                                    (uploadTime (snd d))
                                    (if with_user then Some (userId (snd d)) else None)))\<rparr>))"

definition verify_route :: "env \<Rightarrow> string \<Rightarrow> world \<Rightarrow> response" where
  "verify_route ev hashStr w =
     (if \<not> isLength64 hashStr then respond 400 (ValidationErrors [''Hash must be 64 characters long''])
      else
        (case verify_one ev True hashStr w of
           Inl message \<Rightarrow> respond 500 (Error ''Failed to verify hash'' (Some message))
         | Inr v \<Rightarrow> respond 200 (VerificationBody v)))"

text \<open>
  \<^verbatim>\<open>POST /verify-batch\<close>. The validators reject the request when \<^verbatim>\<open>hashes\<close> is not an array
  (\<open>None\<close>) or when any element fails the length check. The loop catches the exception
  of an item and pushes \<^verbatim>\<open>{hash, error}\<close>. The summary counts with JavaScript's truthiness:
  \<^verbatim>\<open>r.exists\<close> and \<^verbatim>\<open>r.error\<close> are undefined where the field is missing, and an empty error
  message is falsy.
\<close>

fun verify_loop :: "env \<Rightarrow> string list \<Rightarrow> world \<Rightarrow> batch_item list \<Rightarrow> batch_item list" where
  "verify_loop ev [] w results = results"
| "verify_loop ev (hashStr # hashes) w results =
     verify_loop ev hashes w
       (results @ [case verify_one ev False hashStr w of
                     Inr v \<Rightarrow> ItemResult v
                   | Inl message \<Rightarrow> ItemError hashStr message])"

definition r_exists :: "batch_item \<Rightarrow> bool" where
  "r_exists r = (case r of ItemResult v \<Rightarrow> vr_exists v | ItemError h m \<Rightarrow> False)"

definition r_error :: "batch_item \<Rightarrow> bool" where
  "r_error r = (case r of ItemResult v \<Rightarrow> False | ItemError h m \<Rightarrow> m \<noteq> [])"

definition verify_batch_route :: "env \<Rightarrow> string list option \<Rightarrow> world \<Rightarrow> response" where
  "verify_batch_route ev req_hashes w =
     (case req_hashes of
        None \<Rightarrow> respond 400 (ValidationErrors [''Hashes must be an array''])
      | Some hashes \<Rightarrow>
          if \<not> list_all isLength64 hashes then
            respond 400
              (ValidationErrors
                 (map (\<lambda>h. ''Each hash must be 64 characters long'')
                    (filter (\<lambda>h. \<not> isLength64 h) hashes)))
          else
            (let results = verify_loop ev hashes w []
             in respond 200
                  (BatchBody results
                     \<lparr>n_total = length results,
                      n_verified = length (filter r_exists results),
                      n_notFound = length (filter (\<lambda>r. \<not> r_exists r \<and> \<not> r_error r) results),
                      n_errors = length (filter r_error results)\<rparr>)))"





section \<open>The tamper heuristics\<close>

text \<open>
  JavaScript strings are handled here as byte strings; the routes only look at ASCII
  text. \<^verbatim>\<open>buffer.toString('ascii', start, stop)\<close> of Node decodes the bytes from \<open>start\<close> up
  to \<open>stop\<close> (clamped to the buffer) and clears the highest bit of every byte, as Node
  documents for the \<^verbatim>\<open>ascii\<close> encoding.
\<close>

definition toString_ascii :: "byte list \<Rightarrow> nat \<Rightarrow> nat \<Rightarrow> string" where
  "toString_ascii buf start stop =
     map (\<lambda>b. char_of (unat (b AND 0x7F))) (take (stop - start) (drop start buf))"

definition startsWith :: "string \<Rightarrow> string \<Rightarrow> bool" where
  "startsWith s p = (take (length p) s = p)"

fun str_includes :: "string \<Rightarrow> string \<Rightarrow> bool" where
  "str_includes [] p = (p = [])"
| "str_includes (c # cs) p = (startsWith (c # cs) p \<or> str_includes cs p)"

definition toLowerCase :: "string \<Rightarrow> string" where
  "toLowerCase s =
     map (\<lambda>c. if 65 \<le> (of_char c :: nat) \<and> (of_char c :: nat) \<le> 90
              then char_of ((of_char c :: nat) + 32) else c) s"

fun join :: "string \<Rightarrow> string list \<Rightarrow> string" where
  "join sep [] = []"
| "join sep [x] = x"
| "join sep (x # y # xs) = x @ sep @ join sep (y # xs)"

datatype analysis_status = Clean | Suspicious | AnalysisFailed

text \<open>
  The fields of the parsed EXIF data that the image check reads. A date is its time
  value, a GPS coordinate a number; a field that is missing is \<open>None\<close>.
\<close>

record exif =
  Software :: "string option"
  Make :: "string option"
  Model :: "string option"
  DateTimeOriginal :: "int option"
  CreateDate :: "int option"
  ModifyDate :: "int option"
  GPSLatitude :: "rat option"
  GPSLongitude :: "rat option"
  ImageWidth :: "nat option"
  ImageHeight :: "nat option"

datatype analysis_metadata =
    ImageMetadata exif
  | PdfMetadata
  | DocumentMetadata string string nat

record fileInfo =
  fi_name :: string
  fi_type :: string
  fi_size :: nat
  analyzedAt :: string

text \<open>
  The confidence is a JavaScript number. The two fixed results of the claims are
  literals of the source; where the source subtracts penalties the model computes with
  exact decimal fractions.
\<close>

record analysis =
  status :: analysis_status
  details :: string
  confidence :: rat
  metadata :: "analysis_metadata option"
  fileInfo :: "fileInfo option"

definition editingSoftware :: "string list" where
  "editingSoftware = [''photoshop'', ''gimp'', ''paint'', ''canva'', ''figma'']"

definition indicator :: "bool \<Rightarrow> string \<Rightarrow> rat \<Rightarrow> string list \<times> rat \<Rightarrow> string list \<times> rat" where
  "indicator found msg penalty acc =
     (if found then (fst acc @ [msg], snd acc - penalty) else acc)"

text \<open>
  \<^verbatim>\<open>analyzeImageMetadata\<close>. \<^verbatim>\<open>exifr.parse\<close> is a library call: it throws, returns nothing
  (\<^verbatim>\<open>undefined\<close>) or returns the parsed fields. The four checks run in the order of the
  source, each adding its message and subtracting its penalty.
\<close>

definition analyzeImageMetadata ::
  "(byte list \<Rightarrow> string + exif option) \<Rightarrow> byte list \<Rightarrow> string \<Rightarrow> analysis" where
  "analyzeImageMetadata exifr_parse buf filename =
     (case exifr_parse buf of
        Inl error \<Rightarrow>
          \<lparr>status = AnalysisFailed, details = ''Failed to analyze image metadata'',
           confidence = 0.0, metadata = None, fileInfo = None\<rparr>
      | Inr None \<Rightarrow>
          \<lparr>status = Suspicious,
           details = ''No EXIF metadata found - file may have been stripped of metadata'',
           confidence = 0.7, metadata = None, fileInfo = None\<rparr>
      | Inr (Some exifData) \<Rightarrow>
          (let acc0 = ([], 0.9);
               acc1 = indicator
                  (case Software exifData of
                     None \<Rightarrow> False
                   | Some sw \<Rightarrow> sw \<noteq> [] \<and> list_ex (\<lambda>editor. str_includes (toLowerCase sw) editor) editingSoftware)
                  ''File was edited with image editing software'' 0.2 acc0;
               acc2 = indicator (DateTimeOriginal exifData = None \<and> CreateDate exifData = None)
                  ''Missing original creation timestamp'' 0.3 acc1;
               acc3 = indicator
                  (case (DateTimeOriginal exifData, ModifyDate exifData) of
                     (Some original, Some modified) \<Rightarrow> modified < original
                   | other \<Rightarrow> False)
                  ''Modification date is before creation date'' 0.4 acc2;
               acc4 = indicator
                  (case (GPSLatitude exifData, GPSLongitude exifData) of
                     (Some lat, Some lng) \<Rightarrow>
                       lat \<noteq> 0 \<and> lng \<noteq> 0 \<and> (lat < - 90 \<or> lat > 90 \<or> lng < - 180 \<or> lng > 180)
                   | other \<Rightarrow> False)
                  ''Invalid GPS coordinates'' 0.3 acc3;
               suspiciousIndicators = fst acc4;
               conf = snd acc4
           in \<lparr>status = (if conf < 0.6 then Suspicious else if conf < 0.8 then Suspicious else Clean),
               details =
                 (if conf < 0.6 then ''Suspicious indicators found: '' @ join '', '' suspiciousIndicators
                  else if conf < 0.8 then ''Some suspicious indicators detected''
                  else ''Image appears to be authentic''),
               confidence = conf,
               metadata = Some (ImageMetadata exifData),
               fileInfo = None\<rparr>))"

definition suspiciousTerms :: "string list" where
  "suspiciousTerms =
     [''/Creator'', ''/Producer'', ''/ModDate'', ''/CreationDate'',
      ''Adobe'', ''Acrobat'', ''PDF-XChange'', ''Foxit'']"

text \<open>
  \<^verbatim>\<open>analyzePDFMetadata\<close>: the signature check on the first eight bytes as decoded, then
  the scan of the first thousand.
\<close>

definition analyzePDFMetadata :: "byte list \<Rightarrow> string \<Rightarrow> analysis" where
  "analyzePDFMetadata buf filename =
     (let pdfHeader = toString_ascii buf 0 8
      in if \<not> startsWith pdfHeader ''%PDF-'' then
           \<lparr>status = Suspicious, details = ''Invalid PDF format'', confidence = 0.0,
            metadata = None, fileInfo = None\<rparr>
         else
           (let pdfContent = toString_ascii buf 0 1000;
                foundTerms = filter (\<lambda>t. str_includes pdfContent t) suspiciousTerms
            in if length foundTerms > 0 then
                 \<lparr>status = Clean,
                  details = ''PDF contains editing software indicators: '' @ join '', '' foundTerms,
                  confidence = max 0.5 (0.8 - of_nat (length foundTerms) * 0.1),
                  metadata = Some PdfMetadata, fileInfo = None\<rparr>
               else
                 \<lparr>status = Clean, details = ''PDF appears to be authentic'', confidence = 0.8,
                  metadata = Some PdfMetadata, fileInfo = None\<rparr>))"

definition suspiciousPatterns :: "string list" where
  "suspiciousPatterns =
     [''Microsoft Word'', ''Google Docs'', ''LibreOffice'', ''OpenOffice'', ''WPS Office'']"

definition analyzeDocumentMetadata :: "byte list \<Rightarrow> string \<Rightarrow> string \<Rightarrow> analysis" where
  "analyzeDocumentMetadata buf filename mimeType =
     (let small = (length buf < 100);
          content = toString_ascii buf 0 2000;
          foundPatterns =
            filter (\<lambda>pattern. str_includes (toLowerCase content) (toLowerCase pattern)) suspiciousPatterns
      in \<lparr>status = (if small then Suspicious else Clean),
          details =
            (if length foundPatterns > 0 then
               ''Document was created with: '' @ join '', '' foundPatterns
             else if small then ''File size is unusually small''
             else ''Document appears to be authentic''),
          confidence =
            (if length foundPatterns > 0 then max 0.5 (0.7 - of_nat (length foundPatterns) * 0.1)
             else if small then 0.3 else 0.7),
          metadata = Some (DocumentMetadata mimeType filename (length buf)),
          fileInfo = None\<rparr>)"

text \<open>
  The file of a multipart part as the tamper routes receive it from multer's memory
  storage, and multer's checks before a route runs: the count limit of
  \<^verbatim>\<open>upload.array('files', 10)\<close>, the file filter and the size limit, on the parts in their
  order. A rejected part ends the request with multer's error; the route is not called.
\<close>

record memory_file =
  mf_originalname :: string
  mf_mimetype :: string
  mf_buffer :: "byte list"

fun multer_parts :: "nat \<Rightarrow> memory_file list \<Rightarrow> string option" where
  "multer_parts room [] = None"
| "multer_parts room (f # fs) =
     (if room = 0 then Some ''Unexpected field''
      else if mf_mimetype f \<notin> set allowedTypes then Some ''Invalid file type''
      else if 50 * 1024 * 1024 < length (mf_buffer f) then Some ''File too large''
      else multer_parts (room - 1) fs)"

text \<open>The dispatch on the declared media type, and the file information added to the result.\<close>

definition analyze_file ::
  "(byte list \<Rightarrow> string + exif option) \<Rightarrow> string \<Rightarrow> memory_file \<Rightarrow> analysis" where
  "analyze_file exifr_parse now f =
     (let a = (if startsWith (mf_mimetype f) ''image/'' then
                 analyzeImageMetadata exifr_parse (mf_buffer f) (mf_originalname f)
               else if mf_mimetype f = ''application/pdf'' then
                 analyzePDFMetadata (mf_buffer f) (mf_originalname f)
               else analyzeDocumentMetadata (mf_buffer f) (mf_originalname f) (mf_mimetype f))
      in a\<lparr>fileInfo := Some \<lparr>fi_name = mf_originalname f, fi_type = mf_mimetype f,
                              fi_size = length (mf_buffer f), analyzedAt = now\<rparr>\<rparr>)"

record analysis_summary =
  totalFiles :: nat
  overallConfidence :: rat
  suspiciousFiles :: nat
  failedAnalyses :: nat
  cleanFiles :: nat

datatype tamper_response =
    MulterError string
  | TamperError nat string
  | AnalysisResponse analysis
  | BatchResponse "analysis list" analysis_summary

definition analyze_route ::
  "(byte list \<Rightarrow> string + exif option) \<Rightarrow> (nat \<Rightarrow> string) \<Rightarrow> memory_file option \<Rightarrow> tamper_response" where
  "analyze_route exifr_parse clk req_file =
     (case req_file of
        None \<Rightarrow> TamperError 400 ''No file provided''
      | Some f \<Rightarrow>
          (case multer_parts 1 [f] of
             Some e \<Rightarrow> MulterError e
           | None \<Rightarrow> AnalysisResponse (analyze_file exifr_parse (clk 0) f)))"

fun analyze_loop ::
  "(byte list \<Rightarrow> string + exif option) \<Rightarrow> (nat \<Rightarrow> string) \<Rightarrow> memory_file list \<Rightarrow> analysis list \<Rightarrow> analysis list" where
  "analyze_loop exifr_parse clk [] analyses = analyses"
| "analyze_loop exifr_parse clk (f # fs) analyses =
     analyze_loop exifr_parse clk fs (analyses @ [analyze_file exifr_parse (clk (length analyses)) f])"

definition analyze_batch_route ::
  "(byte list \<Rightarrow> string + exif option) \<Rightarrow> (nat \<Rightarrow> string) \<Rightarrow> memory_file list \<Rightarrow> tamper_response" where
  "analyze_batch_route exifr_parse clk req_files =
     (case multer_parts 10 req_files of
        Some e \<Rightarrow> MulterError e
      | None \<Rightarrow>
          if length req_files = 0 then TamperError 400 ''No files provided''
          else
            (let analyses = analyze_loop exifr_parse clk req_files [];
                 suspiciousCount = length (filter (\<lambda>a. status a = Suspicious) analyses);
                 failedCount = length (filter (\<lambda>a. status a = AnalysisFailed) analyses)
             in BatchResponse analyses
                  \<lparr>totalFiles = length analyses,
                   overallConfidence = sum_list (map confidence analyses) / of_nat (length analyses),
                   suspiciousFiles = suspiciousCount,
                   failedAnalyses = failedCount,
                   cleanFiles = length analyses - suspiciousCount - failedCount\<rparr>))"

section \<open>The operations that write file records\<close>



text \<open>
  The changes of status that the code can make: from pending to verified or failed, and
  from failed to verified (a failed record may be submitted again).
\<close>

definition allowed_transition :: "verification_status \<Rightarrow> verification_status \<Rightarrow> bool" where
  "allowed_transition a b =
     (a = b \<or> (a = Pending \<and> (b = Verified \<or> b = Failed)) \<or> (a = Failed \<and> b = Verified))"

section \<open>The wallet blob\<close>

subsection \<open>JSON texts\<close>

text \<open>
  \<^verbatim>\<open>JSON.stringify\<close> and \<^verbatim>\<open>JSON.parse\<close> of the language, on texts and strings of the
  characters \<open>U+0000\<close> to \<open>U+00FF\<close>. A number is kept as its literal. \<^verbatim>\<open>stringify\<close> writes a
  string between quotes and escapes the quote, the backslash and the control characters;
  an object is written with its members in order, without white space.
\<close>

datatype json =
    JNull
  | JBool bool
  | JNumber string
  | JString string
  | JArray "json list"
  | JObject "(string \<times> json) list"

definition QuoteJSONChar :: "char \<Rightarrow> string" where
  "QuoteJSONChar c =
     (if c = CHR 0x22 then [CHR 0x5C, CHR 0x22]
      else if c = CHR 0x5C then [CHR 0x5C, CHR 0x5C]
      else if c = CHR 0x08 then [CHR 0x5C, CHR ''b'']
      else if c = CHR 0x0C then [CHR 0x5C, CHR ''f'']
      else if c = CHR 0x0A then [CHR 0x5C, CHR ''n'']
      else if c = CHR 0x0D then [CHR 0x5C, CHR ''r'']
      else if c = CHR 0x09 then [CHR 0x5C, CHR ''t'']
      else if (of_char c :: nat) < 32 then
        [CHR 0x5C, CHR ''u'', CHR ''0'', CHR ''0'',
         hexdigit (of_char c div 16), hexdigit (of_char c mod 16)]
      else [c])"

definition QuoteJSONString :: "string \<Rightarrow> string" where
  "QuoteJSONString s = CHR 0x22 # concat (map QuoteJSONChar s) @ [CHR 0x22]"

fun JSON_stringify :: "json \<Rightarrow> string" where
  "JSON_stringify JNull = ''null''"
| "JSON_stringify (JBool b) = (if b then ''true'' else ''false'')"
| "JSON_stringify (JNumber literal) = literal"
| "JSON_stringify (JString s) = QuoteJSONString s"
| "JSON_stringify (JArray vs) = ''['' @ join '','' (map JSON_stringify vs) @ '']''"
| "JSON_stringify (JObject ms) =
     ''{'' @ join '','' (map (\<lambda>m. QuoteJSONString (fst m) @ '':'' @ JSON_stringify (snd m)) ms) @ ''}''"

text \<open>
  The parser. A string ends at the first quote that no backslash protects; an escape of
  a code point above \<open>U+00FF\<close> is outside these strings and is refused. The three
  functions for values, for the elements of an array and for the members of an object
  take a bound on the number of nested calls, twice the length of the text and two,
  which they never use up (lemma \<open>parse_fuel\<close>). A member given twice keeps its place and
  takes the later value.
\<close>

datatype parsed = Parsed json string | SyntaxError string | OutOfFuel

definition is_ws :: "char \<Rightarrow> bool" where
  "is_ws c = (c = CHR 0x20 \<or> c = CHR 0x09 \<or> c = CHR 0x0A \<or> c = CHR 0x0D)"

definition skip_ws :: "string \<Rightarrow> string" where
  "skip_ws s = dropWhile is_ws s"

definition unescape :: "char \<Rightarrow> char option" where
  "unescape e =
     (if e = CHR 0x22 then Some (CHR 0x22)
      else if e = CHR 0x5C then Some (CHR 0x5C)
      else if e = CHR ''/'' then Some (CHR ''/'')
      else if e = CHR ''b'' then Some (CHR 0x08)
      else if e = CHR ''f'' then Some (CHR 0x0C)
      else if e = CHR ''n'' then Some (CHR 0x0A)
      else if e = CHR ''r'' then Some (CHR 0x0D)
      else if e = CHR ''t'' then Some (CHR 0x09)
      else None)"

definition hex4 :: "char \<Rightarrow> char \<Rightarrow> char \<Rightarrow> char \<Rightarrow> nat option" where
  "hex4 a b c d =
     (case (hexval a, hexval b, hexval c, hexval d) of
        (Some x, Some y, Some z, Some u) \<Rightarrow> Some (((x * 16 + y) * 16 + z) * 16 + u)
      | other \<Rightarrow> None)"

fun string_body :: "string \<Rightarrow> (string \<times> string) option" where
  "string_body [] = None"
| "string_body (c # cs) =
     (if c = CHR 0x22 then Some ([], cs)
      else if c = CHR 0x5C then
        (case cs of
           [] \<Rightarrow> None
         | e # es \<Rightarrow>
             if e = CHR ''u'' then
               (case es of
                  a # b # c' # d # rest \<Rightarrow>
                    (case hex4 a b c' d of
                       None \<Rightarrow> None
                     | Some n \<Rightarrow>
                         if n < 256 then
                           (case string_body rest of
                              None \<Rightarrow> None
                            | Some (s, r) \<Rightarrow> Some (char_of n # s, r))
                         else None)
                | other \<Rightarrow> None)
             else
               (case unescape e of
                  None \<Rightarrow> None
                | Some x \<Rightarrow>
                    (case string_body es of
                       None \<Rightarrow> None
                     | Some (s, r) \<Rightarrow> Some (x # s, r))))
      else if (of_char c :: nat) < 32 then None
      else
        (case string_body cs of
           None \<Rightarrow> None
         | Some (s, r) \<Rightarrow> Some (c # s, r)))"

definition is_digit :: "char \<Rightarrow> bool" where
  "is_digit c = (48 \<le> (of_char c :: nat) \<and> (of_char c :: nat) \<le> 57)"

definition digits1 :: "string \<Rightarrow> (string \<times> string) option" where
  "digits1 s =
     (if takeWhile is_digit s = [] then None
      else Some (takeWhile is_digit s, dropWhile is_digit s))"

definition number_literal :: "string \<Rightarrow> (string \<times> string) option" where
  "number_literal s =
     (let (sign, s1) = (if take 1 s = ''-'' then (''-'', drop 1 s) else ([], s));
          int_part = (if take 1 s1 = ''0'' then Some (''0'', drop 1 s1) else digits1 s1)
      in case int_part of
           None \<Rightarrow> None
         | Some (i, s2) \<Rightarrow>
             (let frac_part =
                    (if take 1 s2 = ''.'' then
                       (case digits1 (drop 1 s2) of
                          None \<Rightarrow> None
                        | Some (f, r) \<Rightarrow> Some (''.'' @ f, r))
                     else Some ([], s2))
              in case frac_part of
                   None \<Rightarrow> None
                 | Some (f, s3) \<Rightarrow>
                     (if take 1 s3 = ''e'' \<or> take 1 s3 = ''E'' then
                        (let (esign, s4) =
                               (if take 1 (drop 1 s3) = ''+'' \<or> take 1 (drop 1 s3) = ''-''
                                then (take 1 (drop 1 s3), drop 2 s3) else ([], drop 1 s3))
                         in case digits1 s4 of
                              None \<Rightarrow> None
                            | Some (e, r) \<Rightarrow> Some (sign @ i @ f @ take 1 s3 @ esign @ e, r))
                      else Some (sign @ i @ f, s3))))"

definition put_member :: "string \<Rightarrow> json \<Rightarrow> (string \<times> json) list \<Rightarrow> (string \<times> json) list" where
  "put_member k v ms =
     (if k \<in> set (map fst ms) then map (\<lambda>m. if fst m = k then (k, v) else m) ms
      else ms @ [(k, v)])"

fun parse_value :: "nat \<Rightarrow> string \<Rightarrow> parsed"
  and parse_elements :: "nat \<Rightarrow> string \<Rightarrow> json list \<Rightarrow> parsed"
  and parse_members :: "nat \<Rightarrow> string \<Rightarrow> (string \<times> json) list \<Rightarrow> parsed" where
  "parse_value 0 s = OutOfFuel"
| "parse_value (Suc n) s =
     (case skip_ws s of
        [] \<Rightarrow> SyntaxError ''Unexpected end of JSON input''
      | c # cs \<Rightarrow>
          if c = CHR 0x22 then
            (case string_body cs of
               None \<Rightarrow> SyntaxError ''Bad string in JSON''
             | Some (str, rest) \<Rightarrow> Parsed (JString str) rest)
          else if c = CHR ''['' then
            (if take 1 (skip_ws cs) = '']'' then Parsed (JArray []) (drop 1 (skip_ws cs))
             else parse_elements n cs [])
          else if c = CHR ''{'' then
            (if take 1 (skip_ws cs) = ''}'' then Parsed (JObject []) (drop 1 (skip_ws cs))
             else parse_members n cs [])
          else if take 4 (c # cs) = ''true'' then Parsed (JBool True) (drop 4 (c # cs))
          else if take 5 (c # cs) = ''false'' then Parsed (JBool False) (drop 5 (c # cs))
          else if take 4 (c # cs) = ''null'' then Parsed JNull (drop 4 (c # cs))
          else
            (case number_literal (c # cs) of
               None \<Rightarrow> SyntaxError ''Unexpected token in JSON''
             | Some (literal, rest) \<Rightarrow> Parsed (JNumber literal) rest))"
| "parse_elements 0 s vs = OutOfFuel"
| "parse_elements (Suc n) s vs =
     (case parse_value n s of
        Parsed v rest \<Rightarrow>
          (if take 1 (skip_ws rest) = '','' then
             parse_elements n (drop 1 (skip_ws rest)) (vs @ [v])
           else if take 1 (skip_ws rest) = '']'' then
             Parsed (JArray (vs @ [v])) (drop 1 (skip_ws rest))
           else SyntaxError ''Expected , or ] in JSON'')
      | SyntaxError e \<Rightarrow> SyntaxError e
      | OutOfFuel \<Rightarrow> OutOfFuel)"
| "parse_members 0 s ms = OutOfFuel"
| "parse_members (Suc n) s ms =
     (if take 1 (skip_ws s) = [CHR 0x22] then
        (case string_body (drop 1 (skip_ws s)) of
           None \<Rightarrow> SyntaxError ''Bad string in JSON''
         | Some (k, rest) \<Rightarrow>
             if take 1 (skip_ws rest) = '':'' then
               (case parse_value n (drop 1 (skip_ws rest)) of
                  Parsed v rest2 \<Rightarrow>
                    (if take 1 (skip_ws rest2) = '','' then
                       parse_members n (drop 1 (skip_ws rest2)) (put_member k v ms)
                     else if take 1 (skip_ws rest2) = ''}'' then
                       Parsed (JObject (put_member k v ms)) (drop 1 (skip_ws rest2))
                     else SyntaxError ''Expected , or } in JSON'')
                | SyntaxError e \<Rightarrow> SyntaxError e
                | OutOfFuel \<Rightarrow> OutOfFuel)
             else SyntaxError ''Expected : in JSON'')
      else SyntaxError ''Expected property name in JSON'')"

definition JSON_parse :: "string \<Rightarrow> string + json" where
  "JSON_parse s =
     (case parse_value (2 * length s + 2) s of
        Parsed v rest \<Rightarrow>
          if skip_ws rest = [] then Inr v
          else Inl ''Unexpected non-whitespace character after JSON''
      | SyntaxError e \<Rightarrow> Inl e
      | OutOfFuel \<Rightarrow> Inl ''out of fuel'')"

text \<open>The object that is a wallet: the three strings under their names, in this order.\<close>

definition wallet_json :: "WalletInfo \<Rightarrow> json" where
  "wallet_json walletInfo =
     JObject [(''address'', JString (wi_address walletInfo)),
              (''privateKey'', JString (privateKey walletInfo)),
              (''mnemonic'', JString (mnemonic walletInfo))]"

subsection \<open>The cipher\<close>

text \<open>
  Modelled from the spec: \<^verbatim>\<open>CryptoJS.AES.encrypt\<close> and \<^verbatim>\<open>CryptoJS.AES.decrypt\<close>, the cipher
  of the library \<^verbatim>\<open>crypto-js\<close>, which is not part of the sources. The specification says of
  it that \<^verbatim>\<open>encrypt\<close> encrypts the serialized wallet symmetrically under the secret and
  returns an opaque string, and that \<^verbatim>\<open>decrypt\<close> is the inverse and fails if the secret is
  wrong or the blob is malformed, the decryption yielding a text that is not JSON. The
  model is the ideal cipher with these properties: the opaque string stands for the
  message sealed under the passphrase, with the salt that the library draws for each
  encryption; \<^verbatim>\<open>decrypt(\<dots>).toString(CryptoJS.enc.Utf8)\<close> gives the message back under the
  same passphrase, and under any other passphrase, or for a string that is no ciphertext,
  the empty text, which is not JSON.
\<close>

datatype cipher_text = Salted string string string | Malformed string

definition CryptoJS_AES_encrypt :: "string \<Rightarrow> string \<Rightarrow> string \<Rightarrow> cipher_text" where
  "CryptoJS_AES_encrypt salt message passphrase = Salted salt passphrase message"

definition CryptoJS_AES_decrypt :: "cipher_text \<Rightarrow> string \<Rightarrow> string" where
  "CryptoJS_AES_decrypt blob passphrase =
     (case blob of
        Salted salt p message \<Rightarrow> if p = passphrase then message else []
      | Malformed s \<Rightarrow> [])"

text \<open>
  \<^verbatim>\<open>encryptWalletInfo\<close> and \<^verbatim>\<open>decryptWalletInfo\<close> of the backend, and the two methods of
  the client's \<^verbatim>\<open>BlockchainService\<close>, which hold the same lines with the key of the service
  in place of the parameter. \<^verbatim>\<open>decryptWalletInfo\<close> returns what \<^verbatim>\<open>JSON.parse\<close> returns, or
  throws its error.
\<close>

definition encryptWalletInfo :: "string \<Rightarrow> WalletInfo \<Rightarrow> string \<Rightarrow> cipher_text" where
  "encryptWalletInfo salt walletInfo key =
     (let jsonString = JSON_stringify (wallet_json walletInfo)
      in CryptoJS_AES_encrypt salt jsonString key)"

definition decryptWalletInfo :: "cipher_text \<Rightarrow> string \<Rightarrow> string + json" where
  "decryptWalletInfo encryptedData key =
     (let jsonString = CryptoJS_AES_decrypt encryptedData key
      in JSON_parse jsonString)"

definition BlockchainService_encryptWalletInfo ::
  "string \<Rightarrow> string \<Rightarrow> WalletInfo \<Rightarrow> cipher_text" where
  "BlockchainService_encryptWalletInfo this_encryptionKey salt walletInfo =
     (let jsonString = JSON_stringify (wallet_json walletInfo)
      in CryptoJS_AES_encrypt salt jsonString this_encryptionKey)"

definition BlockchainService_decryptWalletInfo :: "string \<Rightarrow> cipher_text \<Rightarrow> string + json" where
  "BlockchainService_decryptWalletInfo this_encryptionKey encryptedData =
     (let jsonString = CryptoJS_AES_decrypt encryptedData this_encryptionKey
      in JSON_parse jsonString)"

section \<open>Fixtures\<close>

text \<open>Concrete callers and hashes, the ones of the contract's own test suite.\<close>

definition user1 :: msg_env where
  "user1 = \<lparr>sender = 0x70997970C51812dc3A010C7d01b50e0d17dc79C8, block_timestamp = 1700000000\<rparr>"

definition user2 :: msg_env where
  "user2 = \<lparr>sender = 0x3C44CdDdB6a900fa2b585dd299e03d12FA4293BC, block_timestamp = 1700000012\<rparr>"

definition testHash :: bytes32 where
  "testHash = 0x1234567890123456789012345678901234567890123456789012345678901234"

definition H1 :: bytes32 where
  "H1 = 0x1111111111111111111111111111111111111111111111111111111111111111"

definition H2 :: bytes32 where
  "H2 = 0x2222222222222222222222222222222222222222222222222222222222222222"

definition H3 :: bytes32 where
  "H3 = 0x3333333333333333333333333333333333333333333333333333333333333333"

definition H4 :: bytes32 where
  "H4 = 0x4444444444444444444444444444444444444444444444444444444444444444"

definition H5 :: bytes32 where
  "H5 = 0x5555555555555555555555555555555555555555555555555555555555555555"

text \<open>
  A backend with every service configured and answering, two users \<^verbatim>\<open>alice\<close> and \<^verbatim>\<open>bob\<close>,
  and a file that \<^verbatim>\<open>alice\<close> has uploaded before.
\<close>

definition wallet0 :: WalletInfo where
  "wallet0 =
     \<lparr>wi_address = ''0x70997970C51812dc3A010C7d01b50e0d17dc79C8'',
      privateKey = ''0x59c6995e998f97a5a0044966f0945389dc9e86dae88c7a8412f4603b6b78690d'',
      mnemonic = ''test test test test test test test test test test test junk''\<rparr>"

text \<open>
  The wallet as \<^verbatim>\<open>CryptoJS.AES.encrypt\<close> stores it under the passphrase \<^verbatim>\<open>default-key\<close>
  with the salt \<^verbatim>\<open>01 02 03 04 05 06 07 08\<close>: the Base64 text of \<^verbatim>\<open>Salted__\<close>, the salt and
  the AES-256-CBC ciphertext of the wallet's JSON text.
\<close>

definition wallet0_blob :: string where
  "wallet0_blob =
     ''U2FsdGVkX18BAgMEBQYHCDBCJED86yXGnyezS08LnjvZrppmMBiQYinWFop1JdRYL2eTWfQmkyBPstZPJkhxWRAhLEjNqLvGfmgkzh2JLQU03hfsbRK8CtUKufNNeTFTdJ+gEU3JLiG7jiSelV8setmsUhwl7CQk'' @
     ''y+TTWjMxT6//lVXswVD2Uy6NSzwIpgGdGq8G5316nq3t2VPYM4c8zONUtcWzjvNqOLxNf3bt7EL0iHLz7tzd+hzJnlRfEFwkitc1SDFwlP+7NdfQ/nXESgYkacLzgr+zu2+LxpLiuZ5cKQot9iQ7eyGUWrrWUb4n''"

definition env0 :: env where
  "env0 =
     \<lparr>db = True,
      db_fault = (\<lambda>c. None),
      newDocId = ''doc2'',
      cloud_fault = None,
      cloud_result =
        \<lparr>secure_url = ''https://res.cloudinary.com/demo/raw/upload/truth-prevails/a2'',
         public_id = ''truth-prevails/a2''\<rparr>,
      clock = (\<lambda>k. ''2024-05-01T10:00:00.000Z''),
      contract = True,
      rpc_fault = None,
      block_time = 1700000000,
      receipt_hash = ''0x8f2a'',
      wallet_address = (\<lambda>k. Some 0x70997970C51812dc3A010C7d01b50e0d17dc79C8),
      render_address = (\<lambda>a. hexlify (map (\<lambda>i. ucast (drop_bit (8 * (19 - i)) a)) [0 ..< 20])),
      AES_decrypt =
        (\<lambda>blob k. if blob = wallet0_blob \<and> k = ''default-key'' then Inr wallet0
                  else Inl ''Malformed UTF-8 data''),
      NETWORK = None,
      ENCRYPTION_SECRET = None,
      next_error = (\<lambda>message. respond 500 (ErrorPage message))\<rparr>"

definition content0 :: "byte list" where
  "content0 = [0x68, 0x65, 0x6C, 0x6C, 0x6F]"

definition record0 :: file_record where
  "record0 =
     \<lparr>userId = ''alice'',
      fileName = ''report.pdf'',
      fileHash = generateFileHash content0,
      fileSize = 5,
      fileType = ''application/pdf'',
      uploadTime = ''2024-04-30T09:00:00.000Z'',
      downloadURL = ''https://res.cloudinary.com/demo/raw/upload/truth-prevails/a1'',
      publicId = ''truth-prevails/a1'',
      walletAddress = ''0x70997970C51812dc3A010C7d01b50e0d17dc79C8'',
      verificationStatus = Pending,
      storagePath = ''cloudinary:truth-prevails/a1'',
      createdAt = ''2024-04-30T09:00:00.000Z'',
      updatedAt = ''2024-04-30T09:00:00.000Z'',
      transactionHash = None,
      verifiedAt = None\<rparr>"

definition user0 :: user_record where
  "user0 =
     \<lparr>userName = ''Alice'', userEmail = ''alice@example.org'',
      userWalletAddress = ''0x70997970C51812dc3A010C7d01b50e0d17dc79C8'',
      encryptedWallet = wallet0_blob\<rparr>"

definition world0 :: world where
  "world0 =
     \<lparr>files = [(''doc1'', record0)],
      users = [(''alice'', user0), (''bob'', user0\<lparr>userName := ''Bob''\<rparr>)],
      assets = [(''truth-prevails/a1'', content0)],
      registry = deployed\<rparr>"

definition upload0 :: upload_file where
  "upload0 =
     \<lparr>originalname = ''copy.pdf'', mimetype = ''application/pdf'', size_bytes = 5,
      buffer = Some content0\<rparr>"



definition hash64 :: string where
  "hash64 = ''1234567890123456789012345678901234567890123456789012345678901234''"

definition hash64b :: string where
  "hash64b = ''abcdefabcdefabcdefabcdefabcdefabcdefabcdefabcdefabcdefabcdefabcd''"

text \<open>A backend whose Firestore rejects the query for one of the two hashes.\<close>

definition flaky :: env where
  "flaky = env0\<lparr>db_fault := (\<lambda>c. if c = FilesWhereHash hash64 then Some ''unavailable'' else None)\<rparr>"

text \<open>
  A file declared as PDF whose first bytes are those of \<^verbatim>\<open>%PDF-1.4\<close> with the highest bit
  of each set, a JPEG without EXIF data, and a parser that finds nothing in the one and
  throws on a file it cannot read.
\<close>

definition highbit_pdf :: memory_file where
  "highbit_pdf =
     \<lparr>mf_originalname = ''x.pdf'', mf_mimetype = ''application/pdf'',
      mf_buffer = [0xA5, 0xD0, 0xC4, 0xC6, 0xAD, 0xB1, 0xAE, 0xB4]\<rparr>"

definition plain_jpeg :: memory_file where
  "plain_jpeg =
     \<lparr>mf_originalname = ''a.jpg'', mf_mimetype = ''image/jpeg'',
      mf_buffer = [0xFF, 0xD8, 0xFF, 0xD9]\<rparr>"

definition broken_gif :: memory_file where
  "broken_gif =
     \<lparr>mf_originalname = ''b.gif'', mf_mimetype = ''image/gif'',
      mf_buffer = [0x47, 0x49, 0x46]\<rparr>"

definition not_pdf :: memory_file where
  "not_pdf =
     \<lparr>mf_originalname = ''c.pdf'', mf_mimetype = ''application/pdf'',
      mf_buffer = [0x50, 0x4B, 0x03, 0x04]\<rparr>"

definition parse0 :: "byte list \<Rightarrow> string + exif option" where
  "parse0 buf = (if take 2 buf = [0xFF, 0xD8] then Inr None else Inl ''Unknown file format'')"

definition clock0 :: "nat \<Rightarrow> string" where
  "clock0 k = ''2024-05-01T10:00:00.000Z''"

(*PROPERTIES*)

section \<open>Properties of the registry\<close>

subsection \<open>Submission\<close>

lemma transact_keeps_present:
  "exists (fileVerifications s h) \<Longrightarrow> fileVerifications (transact c s) h = fileVerifications s h"
  by (auto simp: transact_def submitHash_def Let_def)

lemma ledger_keeps_present:
  "exists (fileVerifications s h) \<Longrightarrow> fileVerifications (ledger cs s) h = fileVerifications s h"
proof (induction cs arbitrary: s)
  case Nil
  then show ?case by simp
next
  case (Cons c cs)
  have "fileVerifications (transact c s) h = fileVerifications s h"
    using Cons.prems by (rule transact_keeps_present)
  moreover from this Cons.prems have "exists (fileVerifications (transact c s) h)" by simp
  ultimately show ?case using Cons.IH by simp
qed

lemma transact_fresh:
  "\<not> exists (fileVerifications s h) \<Longrightarrow> h \<noteq> 0 \<Longrightarrow>
   allHashes (transact (e, h) s) = allHashes s @ [h] \<and>
   (\<forall>k. exists (fileVerifications (transact (e, h) s) k) = (k = h \<or> exists (fileVerifications s k)))"
  by (simp add: transact_def submitHash_def Let_def)

text \<open>
  Claim C1. For every hash \<open>h\<close>, caller and storage: \<^verbatim>\<open>submitHash\<close> reverts when \<open>h\<close> is
  already present (whoever submitted it) and when \<open>h\<close> is the zero value; otherwise it
  records \<open>(h, caller, block time, exists = True)\<close> under \<open>h\<close>, leaves every other entry
  alone and appends \<open>h\<close> to the enumeration array. Once \<open>h\<close> is present it stays as it
  is: after any further sequence of transactions its entry is unchanged and every new
  submission of \<open>h\<close>, by any caller, reverts.
\<close>

theorem submitHash_state_machine:
  "(exists (fileVerifications s h) \<longrightarrow> submitHash e h s = Inl (Revert ''Hash already exists'')) \<and>
   (\<not> exists (fileVerifications s h) \<and> h = 0 \<longrightarrow> submitHash e h s = Inl (Revert ''Invalid hash'')) \<and>
   (\<not> exists (fileVerifications s h) \<and> h \<noteq> 0 \<longrightarrow>
      (\<exists>s'. submitHash e h s = Inr s' \<and>
            fileVerifications s' h =
              \<lparr>hash = h, submitter = sender e, timestamp = block_timestamp e, exists = True\<rparr> \<and>
            (\<forall>k. k \<noteq> h \<longrightarrow> fileVerifications s' k = fileVerifications s k) \<and>
            allHashes s' = allHashes s @ [h] \<and>
            (\<forall>e'. submitHash e' h s' = Inl (Revert ''Hash already exists'')))) \<and>
   (exists (fileVerifications s h) \<longrightarrow>
      (\<forall>cs. fileVerifications (ledger cs s) h = fileVerifications s h \<and>
            (\<forall>e'. submitHash e' h (ledger cs s) = Inl (Revert ''Hash already exists''))))"
proof (intro conjI impI allI)
  assume "exists (fileVerifications s h)"
  then show "submitHash e h s = Inl (Revert ''Hash already exists'')"
    by (simp add: submitHash_def)
next
  assume "\<not> exists (fileVerifications s h) \<and> h = 0"
  then show "submitHash e h s = Inl (Revert ''Invalid hash'')"
    by (auto simp: submitHash_def)
next
  assume "\<not> exists (fileVerifications s h) \<and> h \<noteq> 0"
  then show "\<exists>s'. submitHash e h s = Inr s' \<and>
            fileVerifications s' h =
              \<lparr>hash = h, submitter = sender e, timestamp = block_timestamp e, exists = True\<rparr> \<and>
            (\<forall>k. k \<noteq> h \<longrightarrow> fileVerifications s' k = fileVerifications s k) \<and>
            allHashes s' = allHashes s @ [h] \<and>
            (\<forall>e'. submitHash e' h s' = Inl (Revert ''Hash already exists''))"
    by (simp add: submitHash_def Let_def)
next
  fix cs
  assume "exists (fileVerifications s h)"
  then show "fileVerifications (ledger cs s) h = fileVerifications s h"
    by (rule ledger_keeps_present)
next
  fix cs e'
  assume "exists (fileVerifications s h)"
  then have "exists (fileVerifications (ledger cs s) h)"
    by (simp add: ledger_keeps_present)
  then show "submitHash e' h (ledger cs s) = Inl (Revert ''Hash already exists'')"
    by (simp add: submitHash_def)
qed

theorem submitHash_state_machine_witness:
  "submitHash user1 0 deployed = Inl (Revert ''Invalid hash'') \<and>
   (\<exists>s'. submitHash user1 testHash deployed = Inr s' \<and>
      fileVerifications s' testHash =
        \<lparr>hash = testHash, submitter = sender user1, timestamp = block_timestamp user1,
         exists = True\<rparr> \<and>
      allHashes s' = [testHash] \<and>
      submitHash user2 testHash s' = Inl (Revert ''Hash already exists'') \<and>
      fileVerifications (ledger [(user2, testHash), (user2, 0)] s') testHash =
        fileVerifications s' testHash)"
proof -
  have absent0: "\<not> exists (fileVerifications deployed 0) \<and> (0 :: bytes32) = 0"
    by (simp add: deployed_def zero_verification_def)
  have absent: "\<not> exists (fileVerifications deployed testHash) \<and> testHash \<noteq> 0"
    by (simp add: deployed_def zero_verification_def testHash_def)
  from submitHash_state_machine [of deployed 0 user1] absent0
  have zero: "submitHash user1 0 deployed = Inl (Revert ''Invalid hash'')"
    by blast
  from submitHash_state_machine [of deployed testHash user1] absent
  obtain s' where s': "submitHash user1 testHash deployed = Inr s'"
      "fileVerifications s' testHash =
        \<lparr>hash = testHash, submitter = sender user1, timestamp = block_timestamp user1,
         exists = True\<rparr>"
      "allHashes s' = allHashes deployed @ [testHash]"
    by blast
  from s'(2) have present: "exists (fileVerifications s' testHash)"
    by simp
  from submitHash_state_machine [of s' testHash user2] present
  have "submitHash user2 testHash s' = Inl (Revert ''Hash already exists'')"
    and "fileVerifications (ledger [(user2, testHash), (user2, 0)] s') testHash =
        fileVerifications s' testHash"
    by blast+
  with zero s' show ?thesis
    by (simp add: deployed_def)
qed

subsection \<open>Enumeration of the most recent hashes\<close>

text \<open>
  The loop copies the last \<open>count\<close> elements: after \<open>i\<close> rounds the first \<open>i\<close> cells of
  the result are final and the rest of the window is still to be copied. No panic is
  reachable.
\<close>

lemma getRecentHashes_loop_result:
  "count \<le> totalHashes \<Longrightarrow> totalHashes = length hashes \<Longrightarrow> length result = count \<Longrightarrow>
   i \<le> count \<Longrightarrow> totalHashes < 2 ^ 256 \<Longrightarrow>
   getRecentHashes_loop hashes totalHashes count i result =
     Inr (take i result @ drop (totalHashes - count + i) hashes)"
proof (induction hashes totalHashes count i result rule: getRecentHashes_loop.induct)
  case (1 hashes totalHashes count i result)
  show ?case
  proof (cases "i < count")
    case True
    let ?idx = "totalHashes - count + i"
    from True 1(2,3) have idx: "?idx < length hashes" by arith
    have step: "getRecentHashes_loop hashes totalHashes count i result =
            getRecentHashes_loop hashes totalHashes count (i + 1) (result[i := hashes ! ?idx])"
      using True 1(2,3,4,6) idx by (subst getRecentHashes_loop.simps) simp
    have ih: "getRecentHashes_loop hashes totalHashes count (i + 1) (result[i := hashes ! ?idx]) =
       Inr (take (i + 1) (result[i := hashes ! ?idx]) @ drop (totalHashes - count + (i + 1)) hashes)"
      using True 1(2,3,4,6) idx by (intro 1(1)) simp_all
    have "take (i + 1) (result[i := hashes ! ?idx]) = take i result @ [hashes ! ?idx]"
      using True 1(4) by (simp add: take_Suc_conv_app_nth)
    moreover have "drop ?idx hashes = hashes ! ?idx # drop (totalHashes - count + (i + 1)) hashes"
      using idx by (simp add: Cons_nth_drop_Suc)
    ultimately show ?thesis using step ih by simp
  next
    case False
    with 1(5) have "i = count" by simp
    then show ?thesis using 1(3,4) by (subst getRecentHashes_loop.simps) simp
  qed
qed

lemma getRecentHashes_drop:
  "length (allHashes s) < 2 ^ 256 \<Longrightarrow> getRecentHashes n s =
     Inr (drop (length (allHashes s) - min (unat n) (length (allHashes s))) (allHashes s))"
  unfolding getRecentHashes_def Let_def
  by (subst getRecentHashes_loop_result) (auto simp: min_def)

lemma ledger_five:
  assumes "distinct [h1, h2, h3, h4, h5]" and "0 \<notin> set [h1, h2, h3, h4, h5]"
  shows "allHashes (ledger [(e1, h1), (e2, h2), (e3, h3), (e4, h4), (e5, h5)] deployed) =
           [h1, h2, h3, h4, h5]"
proof -
  have s0: "allHashes deployed = []" "\<forall>k. \<not> exists (fileVerifications deployed k)"
    by (simp_all add: deployed_def zero_verification_def)
  let ?s1 = "transact (e1, h1) deployed"
  have s1: "allHashes ?s1 = [h1] \<and> (\<forall>k. exists (fileVerifications ?s1 k) = (k = h1))"
    using transact_fresh [of deployed h1 e1] s0 assms by auto
  let ?s2 = "transact (e2, h2) ?s1"
  have s2: "allHashes ?s2 = [h1, h2] \<and> (\<forall>k. exists (fileVerifications ?s2 k) = (k = h2 \<or> k = h1))"
    using transact_fresh [of ?s1 h2 e2] s1 assms by auto
  let ?s3 = "transact (e3, h3) ?s2"
  have s3: "allHashes ?s3 = [h1, h2, h3] \<and>
      (\<forall>k. exists (fileVerifications ?s3 k) = (k = h3 \<or> k = h2 \<or> k = h1))"
    using transact_fresh [of ?s2 h3 e3] s2 assms by auto
  let ?s4 = "transact (e4, h4) ?s3"
  have s4: "allHashes ?s4 = [h1, h2, h3, h4] \<and>
      (\<forall>k. exists (fileVerifications ?s4 k) = (k = h4 \<or> k = h3 \<or> k = h2 \<or> k = h1))"
    using transact_fresh [of ?s3 h4 e4] s3 assms by auto
  let ?s5 = "transact (e5, h5) ?s4"
  have s5: "allHashes ?s5 = [h1, h2, h3, h4, h5]"
    using transact_fresh [of ?s4 h5 e5] s4 assms by auto
  then show ?thesis by simp
qed

text \<open>
  Claim C7. After five successful submissions \<open>h1, \<dots>, h5\<close> (pairwise different and not
  zero, by any callers) to the freshly deployed contract, \<^verbatim>\<open>getRecentHashes(3)\<close> returns
  exactly \<open>[h3, h4, h5]\<close>: the three most recent, in submission order. For every storage
  and every requested count above the number of stored hashes, the result is the whole
  enumeration array.
\<close>

theorem getRecentHashes_last_three:
  "(distinct [h1, h2, h3, h4, h5] \<and> 0 \<notin> set [h1, h2, h3, h4, h5] \<longrightarrow>
      getRecentHashes 3 (ledger [(e1, h1), (e2, h2), (e3, h3), (e4, h4), (e5, h5)] deployed) =
        Inr [h3, h4, h5]) \<and>
   (length (allHashes s) < unat n \<longrightarrow> getRecentHashes n s = Inr (allHashes s))"
proof (intro conjI impI)
  assume a: "distinct [h1, h2, h3, h4, h5] \<and> 0 \<notin> set [h1, h2, h3, h4, h5]"
  let ?s = "ledger [(e1, h1), (e2, h2), (e3, h3), (e4, h4), (e5, h5)] deployed"
  from a have all: "allHashes ?s = [h1, h2, h3, h4, h5]"
    by (intro ledger_five) simp_all
  then have "length (allHashes ?s) < 2 ^ 256" by simp
  then have "getRecentHashes 3 ?s =
      Inr (drop (length (allHashes ?s) - min (unat (3 :: uint256)) (length (allHashes ?s)))
             (allHashes ?s))"
    by (rule getRecentHashes_drop)
  with all show "getRecentHashes 3 ?s = Inr [h3, h4, h5]" by simp
next
  assume a: "length (allHashes s) < unat n"
  have "unat n < 2 ^ 256" using unsigned_less [of n] by simp
  with a have "length (allHashes s) < 2 ^ 256" by arith
  then have "getRecentHashes n s =
      Inr (drop (length (allHashes s) - min (unat n) (length (allHashes s))) (allHashes s))"
    by (rule getRecentHashes_drop)
  with a show "getRecentHashes n s = Inr (allHashes s)" by simp
qed

theorem getRecentHashes_last_three_witness:
  "getRecentHashes 3
     (ledger [(user1, H1), (user1, H2), (user1, H3), (user1, H4), (user1, H5)] deployed) =
     Inr [H3, H4, H5] \<and>
   getRecentHashes 10 (ledger [(user1, H1)] deployed) = Inr [H1]"
proof -
  have d: "distinct [H1, H2, H3, H4, H5] \<and> 0 \<notin> set [H1, H2, H3, H4, H5]"
    by (simp add: H1_def H2_def H3_def H4_def H5_def)
  have "\<not> exists (fileVerifications deployed H1)" "H1 \<noteq> 0"
    by (simp_all add: deployed_def zero_verification_def H1_def)
  then have "allHashes (transact (user1, H1) deployed) = allHashes deployed @ [H1]"
    using transact_fresh [of deployed H1 user1] by blast
  then have one: "allHashes (ledger [(user1, H1)] deployed) = [H1]"
    by (simp add: deployed_def)
  then have l: "length (allHashes (ledger [(user1, H1)] deployed)) < unat (10 :: uint256)"
    by simp
  from getRecentHashes_last_three [of H1 H2 H3 H4 H5 user1 user1 user1 user1 user1
      "ledger [(user1, H1)] deployed" 10] d l
  have "getRecentHashes 3
          (ledger [(user1, H1), (user1, H2), (user1, H3), (user1, H4), (user1, H5)] deployed) =
        Inr [H3, H4, H5]"
   and "getRecentHashes 10 (ledger [(user1, H1)] deployed) =
        Inr (allHashes (ledger [(user1, H1)] deployed))"
    by blast+
  with one show ?thesis by simp
qed

section \<open>Properties of the content hash\<close>

lemma length_sha256: "length (sha256 m) = 32"
  by (simp add: sha256_def Let_def word32_bytes_def)

lemma hexdigit_in: "hexdigit n \<in> set ''0123456789abcdef''"
proof -
  have "n mod 16 < length ''0123456789abcdef''" by simp
  then show ?thesis unfolding hexdigit_def by (rule nth_mem)
qed

lemma hexlify_shape:
  "\<exists>d. hexlify bs = ''0x'' @ d \<and> length d = 2 * length bs \<and> set d \<subseteq> set ''0123456789abcdef''"
proof -
  let ?d = "concat (map (\<lambda>b. [hexdigit (unat b div 16), hexdigit (unat b mod 16)]) bs)"
  have "length ?d = 2 * length bs" by (induction bs) simp_all
  moreover have "set ?d \<subseteq> set ''0123456789abcdef''"
    using hexdigit_in by (induction bs) auto
  ultimately show ?thesis unfolding hexlify_def by blast
qed

lemma length_generateFileHash: "length (generateFileHash b) = 66"
  using hexlify_shape [of "sha256 b"]
  by (auto simp: generateFileHash_def ethers_sha256_def length_sha256)

text \<open>
  Claim C3, as amended. For every byte sequence the digest that \<^verbatim>\<open>generateFileHash\<close>
  returns is the two characters \<^verbatim>\<open>0x\<close> followed by 64 lower-case hexadecimal digits, 66
  characters in all, and the client's function returns the same string for the same
  bytes.
\<close>

theorem generateFileHash_format:
  "(\<exists>d. generateFileHash b = ''0x'' @ d \<and> length d = 64 \<and>
        set d \<subseteq> set ''0123456789abcdef'') \<and>
   length (generateFileHash b) = 66 \<and>
   BlockchainService_generateFileHash (Inr b) = Inr (generateFileHash b)"
proof -
  from hexlify_shape [of "sha256 b"] obtain d where
    d: "hexlify (sha256 b) = ''0x'' @ d" "length d = 2 * length (sha256 b)"
       "set d \<subseteq> set ''0123456789abcdef''" by blast
  then show ?thesis
    by (simp add: generateFileHash_def ethers_sha256_def BlockchainService_generateFileHash_def
        length_sha256)
qed

theorem generateFileHash_format_witness:
  "(\<exists>d. generateFileHash content0 = ''0x'' @ d \<and> length d = 64 \<and>
        set d \<subseteq> set ''0123456789abcdef'') \<and>
   length (generateFileHash content0) = 66 \<and>
   BlockchainService_generateFileHash (Inr content0) = Inr (generateFileHash content0)"
  by (rule generateFileHash_format)

text \<open>
  The claim as it was stated fails on the empty file: its digest has 66 characters, not
  64, and the length check of the public verification route refuses it.
\<close>

theorem generateFileHash_counterexample:
  "length (generateFileHash []) \<noteq> 64 \<and> \<not> isLength64 (generateFileHash [])"
  by (simp add: length_generateFileHash isLength64_def)

section \<open>Properties of the verification routes\<close>

text \<open>
  A string that passes the length check of the public routes has 64 characters; a string
  that ethers accepts as \<^verbatim>\<open>bytes32\<close> has 66. So for every accepted request the contract call
  throws while encoding, and the wrapper returns its mock result.
\<close>

lemma hex_bytes_length: "hex_bytes s = Some bs \<Longrightarrow> length s = 2 * length bs"
proof (induction s arbitrary: bs rule: hex_bytes.induct)
  case 1
  then show ?case by simp
next
  case (2 c)
  then show ?case by simp
next
  case (3 c d cs)
  then show ?case by (auto split: option.splits)
qed

lemma encode_bytes32_length: "encode_bytes32 v = Inr k \<Longrightarrow> length v = 66"
proof -
  assume a: "encode_bytes32 v = Inr k"
  then obtain data where d: "getBytes v = Inr data" "length data = 32"
    by (auto simp: encode_bytes32_def split: sum.splits if_splits)
  then have p: "take 2 v = ''0x'' \<or> take 2 v = ''0X''" and h: "hex_bytes (drop 2 v) = Some data"
    by (auto simp: getBytes_def split: if_splits option.splits)
  from h d(2) have "length (drop 2 v) = 64" using hex_bytes_length by fastforce
  moreover from p have "2 \<le> length v" by (cases v; cases "tl v") auto
  ultimately show ?thesis by simp
qed

lemma isLength64_not_bytes32: "isLength64 h \<Longrightarrow> \<exists>e. encode_bytes32 h = Inl e"
proof -
  assume "isLength64 h"
  then have "length h \<noteq> 66" by (simp add: isLength64_def)
  then have "\<forall>k. encode_bytes32 h \<noteq> Inr k" using encode_bytes32_length by blast
  then show ?thesis by (cases "encode_bytes32 h") auto
qed

lemma verifyHashOnBlockchain_accepted:
  "isLength64 h \<Longrightarrow>
   verifyHashOnBlockchain ev h w = \<lparr>oc_exists = False, oc_submitter = [], oc_timestamp = 0\<rparr>"
  using isLength64_not_bytes32 [of h]
  by (auto simp: verifyHashOnBlockchain_def contract_verifyHash_def)

lemma verify_one_accepted:
  "isLength64 h \<Longrightarrow> db ev' = db ev \<Longrightarrow> db_fault ev' = db_fault ev \<Longrightarrow> files w' = files w \<Longrightarrow>
   verify_one ev' u h w' = verify_one ev u h w"
  by (simp add: verify_one_def verifyHashOnBlockchain_accepted firestore_call_def Let_def)

text \<open>
  Claim C10. The wrapper \<^verbatim>\<open>verifyHashOnBlockchain\<close> returns a result for every input (its
  model has no error value): with the contract unconfigured, and whenever the contract
  call throws, the result is \<open>exists = False\<close>, the empty string as submitter and
  \<open>timestamp = 0\<close>. The answer of \<^verbatim>\<open>POST /verify\<close> when the provider fails or the contract
  is unconfigured is equal to its answer with a working provider and a registry in which
  the hash was never registered.
\<close>

theorem verifyHashOnBlockchain_never_fails:
  "(\<not> contract ev \<longrightarrow>
      verifyHashOnBlockchain ev h w = \<lparr>oc_exists = False, oc_submitter = [], oc_timestamp = 0\<rparr>) \<and>
   ((\<exists>e. contract_verifyHash ev h w = Inl e) \<longrightarrow>
      verifyHashOnBlockchain ev h w = \<lparr>oc_exists = False, oc_submitter = [], oc_timestamp = 0\<rparr>) \<and>
   ((\<not> contract ev \<or> rpc_fault ev \<noteq> None) \<and>
    (\<forall>k. encode_bytes32 h = Inr k \<longrightarrow> \<not> exists (fileVerifications r k)) \<longrightarrow>
      verify_route ev h w = verify_route (ev\<lparr>contract := True, rpc_fault := None\<rparr>) h (w\<lparr>registry := r\<rparr>))"
proof (intro conjI impI)
  assume "\<not> contract ev"
  then show "verifyHashOnBlockchain ev h w = \<lparr>oc_exists = False, oc_submitter = [], oc_timestamp = 0\<rparr>"
    by (simp add: verifyHashOnBlockchain_def)
next
  assume "\<exists>e. contract_verifyHash ev h w = Inl e"
  then show "verifyHashOnBlockchain ev h w = \<lparr>oc_exists = False, oc_submitter = [], oc_timestamp = 0\<rparr>"
    by (auto simp: verifyHashOnBlockchain_def)
next
  assume "(\<not> contract ev \<or> rpc_fault ev \<noteq> None) \<and>
    (\<forall>k. encode_bytes32 h = Inr k \<longrightarrow> \<not> exists (fileVerifications r k))"
  show "verify_route ev h w = verify_route (ev\<lparr>contract := True, rpc_fault := None\<rparr>) h (w\<lparr>registry := r\<rparr>)"
  proof (cases "isLength64 h")
    case True
    then have "verify_one (ev\<lparr>contract := True, rpc_fault := None\<rparr>) True h (w\<lparr>registry := r\<rparr>) =
        verify_one ev True h w"
      by (intro verify_one_accepted) simp_all
    then show ?thesis by (simp add: verify_route_def)
  next
    case False
    then show ?thesis by (simp add: verify_route_def)
  qed
qed

text \<open>
  At the wrapper itself, for a string that is a valid \<^verbatim>\<open>bytes32\<close> and a hash that is not
  registered, the submitter is the rendering of the zero address.
\<close>

lemma verifyHashOnBlockchain_absent:
  "contract ev \<Longrightarrow> rpc_fault ev = None \<Longrightarrow> encode_bytes32 h = Inr k \<Longrightarrow>
   fileVerifications (registry w) k = zero_verification \<Longrightarrow>
   verifyHashOnBlockchain ev h w =
     \<lparr>oc_exists = False, oc_submitter = render_address ev 0, oc_timestamp = 0\<rparr>"
  by (simp add: verifyHashOnBlockchain_def contract_verifyHash_def verifyHash_def
      zero_verification_def Number_def)

theorem verifyHashOnBlockchain_never_fails_witness:
  "verifyHashOnBlockchain (env0\<lparr>contract := False\<rparr>) hash64 world0 =
      \<lparr>oc_exists = False, oc_submitter = [], oc_timestamp = 0\<rparr> \<and>
   verifyHashOnBlockchain (env0\<lparr>rpc_fault := Some ''timeout''\<rparr>)
      ''0x1234567890123456789012345678901234567890123456789012345678901234'' world0 =
      \<lparr>oc_exists = False, oc_submitter = [], oc_timestamp = 0\<rparr> \<and>
   verify_route (env0\<lparr>rpc_fault := Some ''timeout''\<rparr>) hash64 world0 =
     verify_route (env0\<lparr>rpc_fault := Some ''timeout'', contract := True, rpc_fault := None\<rparr>) hash64
       (world0\<lparr>registry := deployed\<rparr>)"
proof -
  have enc: "encode_bytes32 ''0x1234567890123456789012345678901234567890123456789012345678901234'' =
      Inr testHash"
    by (simp add: encode_bytes32_def getBytes_def hexval_def testHash_def)
  have a: "\<not> contract (env0\<lparr>contract := False\<rparr>)" by simp
  have b: "\<exists>e. contract_verifyHash (env0\<lparr>rpc_fault := Some ''timeout''\<rparr>)
      ''0x1234567890123456789012345678901234567890123456789012345678901234'' world0 = Inl e"
    by (simp add: contract_verifyHash_def enc)
  have c: "(\<not> contract (env0\<lparr>rpc_fault := Some ''timeout''\<rparr>) \<or>
       rpc_fault (env0\<lparr>rpc_fault := Some ''timeout''\<rparr>) \<noteq> None) \<and>
      (\<forall>k. encode_bytes32 hash64 = Inr k \<longrightarrow> \<not> exists (fileVerifications deployed k))"
    by (simp add: deployed_def zero_verification_def)
  from verifyHashOnBlockchain_never_fails [of "env0\<lparr>contract := False\<rparr>" hash64 world0] a
  have 1: "verifyHashOnBlockchain (env0\<lparr>contract := False\<rparr>) hash64 world0 =
      \<lparr>oc_exists = False, oc_submitter = [], oc_timestamp = 0\<rparr>" by blast
  from verifyHashOnBlockchain_never_fails [of "env0\<lparr>rpc_fault := Some ''timeout''\<rparr>"
      "''0x1234567890123456789012345678901234567890123456789012345678901234''" world0] b
  have 2: "verifyHashOnBlockchain (env0\<lparr>rpc_fault := Some ''timeout''\<rparr>)
      ''0x1234567890123456789012345678901234567890123456789012345678901234'' world0 =
      \<lparr>oc_exists = False, oc_submitter = [], oc_timestamp = 0\<rparr>" by blast
  from verifyHashOnBlockchain_never_fails [of "env0\<lparr>rpc_fault := Some ''timeout''\<rparr>" hash64 world0 deployed] c
  have 3: "verify_route (env0\<lparr>rpc_fault := Some ''timeout''\<rparr>) hash64 world0 =
     verify_route (env0\<lparr>rpc_fault := Some ''timeout'', contract := True, rpc_fault := None\<rparr>) hash64
       (world0\<lparr>registry := deployed\<rparr>)" by blast
  from 1 2 3 show ?thesis by blast
qed

subsection \<open>Batches\<close>

lemma verify_loop_map:
  "verify_loop ev hashes w results =
     results @ map (\<lambda>h. case verify_one ev False h w of
                          Inr v \<Rightarrow> ItemResult v | Inl m \<Rightarrow> ItemError h m) hashes"
  by (induction hashes arbitrary: results) simp_all

lemma analyze_loop_map:
  "analyze_loop P clk fs analyses =
     analyses @ map (\<lambda>(k, f). analyze_file P (clk k) f) (enumerate (length analyses) fs)"
  by (induction fs arbitrary: analyses) simp_all

lemma three_way_count:
  "(\<And>x. \<not> (A x \<and> B x)) \<Longrightarrow>
   length (filter A xs) + length (filter (\<lambda>x. \<not> A x \<and> \<not> B x) xs) + length (filter B xs) = length xs"
  by (induction xs) auto

lemma status_analyze_file: "status (analyze_file P now f) = status (analyze_file P now' f)"
  by (simp add: analyze_file_def Let_def)

lemma count_map_enumerate:
  "length (filter Q (map (\<lambda>(k, f). analyze_file P (clk k) f) (enumerate n fs))) =
   length (filter (\<lambda>f. Q (analyze_file P (clk 0) f)) fs)"
  if "\<And>now now' f. Q (analyze_file P now f) = Q (analyze_file P now' f)"
  using that by (induction fs arbitrary: n) auto

text \<open>
  Claim C6, as amended. A batch verification whose hashes all pass the length check
  answers 200 with one result for every hash, in order: the verification of the hash, or
  \<^verbatim>\<open>{hash, error}\<close> when the lookup of that hash threw; the summary counts add up to the
  number of hashes, and \<open>errors\<close> counts the items that failed with a non-empty message.
  A batch verification with a hash that fails the length check is answered 400 as a
  whole. A batch analysis that multer accepts answers with one analysis for every file,
  in order; \<open>failedAnalyses\<close> counts the files whose analysis failed, and the three counts
  add up to the number of files. A batch analysis with a part that multer rejects ends
  with multer's error. An image whose parser throws is analysed as failed with
  confidence 0.
\<close>

theorem batch_isolation:
  "(list_all isLength64 hashes \<longrightarrow>
      (\<exists>summary.
         verify_batch_route ev (Some hashes) w =
           respond 200
             (BatchBody
                (map (\<lambda>h. case verify_one ev False h w of
                             Inr v \<Rightarrow> ItemResult v | Inl m \<Rightarrow> ItemError h m) hashes)
                summary) \<and>
         n_total summary = length hashes \<and>
         n_verified summary + n_notFound summary + n_errors summary = length hashes \<and>
         n_errors summary =
           length (filter (\<lambda>h. case verify_one ev False h w of
                                  Inr v \<Rightarrow> False | Inl m \<Rightarrow> m \<noteq> []) hashes))) \<and>
   (\<not> list_all isLength64 hashes \<longrightarrow>
      (\<exists>messages. verify_batch_route ev (Some hashes) w = respond 400 (ValidationErrors messages))) \<and>
   (multer_parts 10 fs = None \<and> fs \<noteq> [] \<longrightarrow>
      (\<exists>summary.
         analyze_batch_route P clk fs =
           BatchResponse (map (\<lambda>(k, f). analyze_file P (clk k) f) (enumerate 0 fs)) summary \<and>
         totalFiles summary = length fs \<and>
         failedAnalyses summary =
           length (filter (\<lambda>f. status (analyze_file P (clk 0) f) = AnalysisFailed) fs) \<and>
         cleanFiles summary + suspiciousFiles summary + failedAnalyses summary = length fs)) \<and>
   (multer_parts 10 fs \<noteq> None \<longrightarrow> (\<exists>e. analyze_batch_route P clk fs = MulterError e)) \<and>
   (startsWith (mf_mimetype f) ''image/'' \<and> (\<exists>e. P (mf_buffer f) = Inl e) \<longrightarrow>
      status (analyze_file P now f) = AnalysisFailed \<and> confidence (analyze_file P now f) = 0)"
proof (intro conjI impI)
  assume ok: "list_all isLength64 hashes"
  let ?item = "\<lambda>h. case verify_one ev False h w of Inr v \<Rightarrow> ItemResult v | Inl m \<Rightarrow> ItemError h m"
  let ?results = "map ?item hashes"
  let ?summary = "\<lparr>n_total = length ?results,
                   n_verified = length (filter r_exists ?results),
                   n_notFound = length (filter (\<lambda>r. \<not> r_exists r \<and> \<not> r_error r) ?results),
                   n_errors = length (filter r_error ?results)\<rparr>"
  have route: "verify_batch_route ev (Some hashes) w = respond 200 (BatchBody ?results ?summary)"
    using ok by (simp add: verify_batch_route_def verify_loop_map Let_def)
  have disjoint: "\<And>r. \<not> (r_exists r \<and> r_error r)"
    by (auto simp: r_exists_def r_error_def split: batch_item.splits)
  have parts: "n_verified ?summary + n_notFound ?summary + n_errors ?summary = length hashes"
    using three_way_count [of r_exists r_error ?results, OF disjoint] by simp
  have "r_error \<circ> ?item = (\<lambda>h. case verify_one ev False h w of Inr v \<Rightarrow> False | Inl m \<Rightarrow> m \<noteq> [])"
    by (auto simp: r_error_def fun_eq_iff split: sum.splits)
  then have errs: "n_errors ?summary =
      length (filter (\<lambda>h. case verify_one ev False h w of Inr v \<Rightarrow> False | Inl m \<Rightarrow> m \<noteq> []) hashes)"
    by (simp add: filter_map)
  from route parts errs
  show "\<exists>summary.
         verify_batch_route ev (Some hashes) w = respond 200 (BatchBody ?results summary) \<and>
         n_total summary = length hashes \<and>
         n_verified summary + n_notFound summary + n_errors summary = length hashes \<and>
         n_errors summary =
           length (filter (\<lambda>h. case verify_one ev False h w of
                                  Inr v \<Rightarrow> False | Inl m \<Rightarrow> m \<noteq> []) hashes)"
    by (intro exI [of _ ?summary]) simp
next
  assume "\<not> list_all isLength64 hashes"
  then have "verify_batch_route ev (Some hashes) w =
      respond 400 (ValidationErrors (map (\<lambda>h. ''Each hash must be 64 characters long'')
                                      (filter (\<lambda>h. \<not> isLength64 h) hashes)))"
    by (simp add: verify_batch_route_def)
  then show "\<exists>messages. verify_batch_route ev (Some hashes) w = respond 400 (ValidationErrors messages)"
    by blast
next
  assume ok: "multer_parts 10 fs = None \<and> fs \<noteq> []"
  let ?analyses = "map (\<lambda>(k, f). analyze_file P (clk k) f) (enumerate 0 fs)"
  let ?susp = "length (filter (\<lambda>a. status a = Suspicious) ?analyses)"
  let ?failed = "length (filter (\<lambda>a. status a = AnalysisFailed) ?analyses)"
  let ?summary = "\<lparr>totalFiles = length ?analyses,
                   overallConfidence = sum_list (map confidence ?analyses) / of_nat (length ?analyses),
                   suspiciousFiles = ?susp, failedAnalyses = ?failed,
                   cleanFiles = length ?analyses - ?susp - ?failed\<rparr>"
  have route: "analyze_batch_route P clk fs = BatchResponse ?analyses ?summary"
    using ok by (simp add: analyze_batch_route_def analyze_loop_map Let_def)
  have failed: "?failed = length (filter (\<lambda>f. status (analyze_file P (clk 0) f) = AnalysisFailed) fs)"
    by (rule count_map_enumerate) (simp add: analyze_file_def Let_def)
  have "length (filter (\<lambda>a. status a = Suspicious) ?analyses) +
        length (filter (\<lambda>a. \<not> status a = Suspicious \<and> \<not> status a = AnalysisFailed) ?analyses) +
        length (filter (\<lambda>a. status a = AnalysisFailed) ?analyses) = length ?analyses"
    by (rule three_way_count) simp
  then have parts: "cleanFiles ?summary + suspiciousFiles ?summary + failedAnalyses ?summary = length fs"
    by simp
  from route failed parts
  show "\<exists>summary.
         analyze_batch_route P clk fs = BatchResponse ?analyses summary \<and>
         totalFiles summary = length fs \<and>
         failedAnalyses summary =
           length (filter (\<lambda>f. status (analyze_file P (clk 0) f) = AnalysisFailed) fs) \<and>
         cleanFiles summary + suspiciousFiles summary + failedAnalyses summary = length fs"
    by (intro exI [of _ ?summary]) simp
next
  assume "multer_parts 10 fs \<noteq> None"
  then show "\<exists>e. analyze_batch_route P clk fs = MulterError e"
    by (auto simp: analyze_batch_route_def)
next
  assume a: "startsWith (mf_mimetype f) ''image/'' \<and> (\<exists>e. P (mf_buffer f) = Inl e)"
  then show "status (analyze_file P now f) = AnalysisFailed"
    by (auto simp: analyze_file_def analyzeImageMetadata_def)
  from a show "confidence (analyze_file P now f) = 0"
    by (auto simp: analyze_file_def analyzeImageMetadata_def)
qed

text \<open>
  The claim as it was stated fails for a batch of two hashes of which one is malformed:
  the answer is 400 and carries no result for either.
\<close>

theorem batch_malformed_item_counterexample:
  "verify_batch_route env0 (Some [hash64, ''abc'']) world0 =
     respond 400 (ValidationErrors [''Each hash must be 64 characters long''])"
  by (simp add: verify_batch_route_def isLength64_def hash64_def)


theorem batch_isolation_witness:
  "(\<exists>summary.
      verify_batch_route flaky (Some [hash64b, hash64]) world0 =
        respond 200
          (BatchBody
             [ItemResult \<lparr>vr_hash = hash64b, vr_exists = False, vr_submitter = [],
                          vr_timestamp = 0, transactionUrl = None, fileMetadata = None\<rparr>,
              ItemError hash64 ''unavailable'']
             summary) \<and>
      n_total summary = 2 \<and> n_errors summary = 1) \<and>
   (\<exists>messages. verify_batch_route flaky (Some [hash64b, ''abc'']) world0 =
      respond 400 (ValidationErrors messages)) \<and>
   (\<exists>summary.
      analyze_batch_route parse0 clock0 [plain_jpeg, broken_gif] =
        BatchResponse [analyze_file parse0 (clock0 0) plain_jpeg, analyze_file parse0 (clock0 1) broken_gif]
          summary \<and>
      totalFiles summary = 2 \<and> failedAnalyses summary = 1) \<and>
   status (analyze_file parse0 (clock0 1) broken_gif) = AnalysisFailed \<and>
   (\<exists>e. analyze_batch_route parse0 clock0 [plain_jpeg, broken_gif\<lparr>mf_mimetype := ''image/bmp''\<rparr>] =
      MulterError e)"
proof -
  let ?good = "hash64b"
  have len: "list_all isLength64 [?good, hash64]" "\<not> list_all isLength64 [?good, ''abc'']"
    by (simp_all add: isLength64_def hash64_def hash64b_def)
  have ne: "?good \<noteq> hash64"
    by (simp add: hash64_def hash64b_def)
  have "length (fileHash record0) = 66"
    by (simp add: record0_def length_generateFileHash)
  moreover have "length hash64b = 64"
    by (simp add: hash64b_def)
  ultimately have other: "fileHash record0 \<noteq> hash64b"
    by auto
  have chain: "verifyHashOnBlockchain flaky hash64b world0 =
      \<lparr>oc_exists = False, oc_submitter = [], oc_timestamp = 0\<rparr>"
    using len(1) by (intro verifyHashOnBlockchain_accepted) simp
  have good: "verify_one flaky False ?good world0 =
      Inr \<lparr>vr_hash = ?good, vr_exists = False, vr_submitter = [], vr_timestamp = 0,
           transactionUrl = None, fileMetadata = None\<rparr>"
  proof -
    have "db flaky" "db_fault flaky (FilesWhereHash hash64b) = None"
      using ne by (simp_all add: flaky_def env0_def)
    moreover have "files world0 = [(''doc1'', record0)]"
      by (simp add: world0_def)
    ultimately show ?thesis
      using other by (simp add: verify_one_def chain firestore_call_def)
  qed
  have bad: "verify_one flaky False hash64 world0 = Inl ''unavailable''"
  proof -
    have "db flaky" "db_fault flaky (FilesWhereHash hash64) = Some ''unavailable''"
      by (simp_all add: flaky_def env0_def)
    then show ?thesis
      by (simp add: verify_one_def firestore_call_def)
  qed
  have accepted: "multer_parts 10 [plain_jpeg, broken_gif] = None \<and> [plain_jpeg, broken_gif] \<noteq> []"
    by (simp add: plain_jpeg_def broken_gif_def allowedTypes_def)
  have rejected: "multer_parts 10 [plain_jpeg, broken_gif\<lparr>mf_mimetype := ''image/bmp''\<rparr>] \<noteq> None"
    by (simp add: plain_jpeg_def broken_gif_def allowedTypes_def)
  have throws: "startsWith (mf_mimetype broken_gif) ''image/'' \<and>
      (\<exists>e. parse0 (mf_buffer broken_gif) = Inl e)"
    by (simp add: broken_gif_def startsWith_def parse0_def)
  have jpeg: "status (analyze_file parse0 (clock0 0) plain_jpeg) \<noteq> AnalysisFailed"
    by (simp add: analyze_file_def plain_jpeg_def startsWith_def parse0_def analyzeImageMetadata_def
        Let_def)
  note inst = batch_isolation [where hashes = "[?good, hash64]" and ev = flaky and w = world0
      and fs = "[plain_jpeg, broken_gif]" and P = parse0 and clk = clock0 and f = broken_gif
      and now = "clock0 1"]
  note inst' = batch_isolation [where hashes = "[?good, ''abc'']" and ev = flaky and w = world0
      and fs = "[plain_jpeg, broken_gif\<lparr>mf_mimetype := ''image/bmp''\<rparr>]" and P = parse0
      and clk = clock0 and f = broken_gif and now = "clock0 1"]
  note v = inst [THEN conjunct1, THEN mp, OF len(1)]
  note v400 = inst' [THEN conjunct2, THEN conjunct1, THEN mp, OF len(2)]
  note a = inst [THEN conjunct2, THEN conjunct2, THEN conjunct1, THEN mp, OF accepted]
  note m = inst' [THEN conjunct2, THEN conjunct2, THEN conjunct2, THEN conjunct1, THEN mp, OF rejected]
  note failed = inst [THEN conjunct2, THEN conjunct2, THEN conjunct2, THEN conjunct2, THEN mp,
      OF throws, THEN conjunct1]
  have failed0: "status (analyze_file parse0 (clock0 0) broken_gif) = AnalysisFailed"
    using failed by (simp add: analyze_file_def Let_def)
  from v obtain summary where s:
    "verify_batch_route flaky (Some [?good, hash64]) world0 =
       respond 200 (BatchBody (map (\<lambda>h. case verify_one flaky False h world0 of
                             Inr v \<Rightarrow> ItemResult v | Inl m \<Rightarrow> ItemError h m) [?good, hash64]) summary)"
    "n_total summary = length [?good, hash64]"
    "n_errors summary =
       length (filter (\<lambda>h. case verify_one flaky False h world0 of
                                  Inr v \<Rightarrow> False | Inl m \<Rightarrow> m \<noteq> []) [?good, hash64])"
    by (elim exE conjE)
  have 1: "\<exists>summary.
      verify_batch_route flaky (Some [?good, hash64]) world0 =
        respond 200
          (BatchBody
             [ItemResult \<lparr>vr_hash = ?good, vr_exists = False, vr_submitter = [],
                          vr_timestamp = 0, transactionUrl = None, fileMetadata = None\<rparr>,
              ItemError hash64 ''unavailable'']
             summary) \<and>
      n_total summary = 2 \<and> n_errors summary = 1"
  proof (intro exI [of _ summary] conjI)
    show "verify_batch_route flaky (Some [?good, hash64]) world0 =
        respond 200
          (BatchBody
             [ItemResult \<lparr>vr_hash = ?good, vr_exists = False, vr_submitter = [],
                          vr_timestamp = 0, transactionUrl = None, fileMetadata = None\<rparr>,
              ItemError hash64 ''unavailable'']
             summary)"
      unfolding s(1) by (simp only: list.map good bad sum.case)
    show "n_total summary = 2" unfolding s(2) by simp
    show "n_errors summary = 1" unfolding s(3) by (simp only: filter.simps good bad sum.case) simp
  qed
  from a obtain asummary where a':
    "analyze_batch_route parse0 clock0 [plain_jpeg, broken_gif] =
       BatchResponse (map (\<lambda>(k, f). analyze_file parse0 (clock0 k) f) (enumerate 0 [plain_jpeg, broken_gif]))
         asummary"
    "totalFiles asummary = length [plain_jpeg, broken_gif]"
    "failedAnalyses asummary =
       length (filter (\<lambda>f. status (analyze_file parse0 (clock0 0) f) = AnalysisFailed)
                 [plain_jpeg, broken_gif])"
    by (elim exE conjE)
  have 2: "\<exists>summary.
      analyze_batch_route parse0 clock0 [plain_jpeg, broken_gif] =
        BatchResponse [analyze_file parse0 (clock0 0) plain_jpeg, analyze_file parse0 (clock0 1) broken_gif]
          summary \<and>
      totalFiles summary = 2 \<and> failedAnalyses summary = 1"
  proof (intro exI [of _ asummary] conjI)
    show "analyze_batch_route parse0 clock0 [plain_jpeg, broken_gif] =
        BatchResponse [analyze_file parse0 (clock0 0) plain_jpeg, analyze_file parse0 (clock0 1) broken_gif]
          asummary"
      unfolding a'(1) by (simp add: enumerate_eq_zip upt_rec)
    show "totalFiles asummary = 2" unfolding a'(2) by simp
    show "failedAnalyses asummary = 1" unfolding a'(3) using jpeg failed0 by simp
  qed
  show ?thesis
    by (intro conjI) (rule 1, rule v400, rule 2, rule failed, rule m)
qed

section \<open>Properties of the upload route\<close>

lemma take1_filter_Nil: "(take 1 (filter P xs) = []) = (\<forall>x \<in> set xs. \<not> P x)"
  by (simp add: take_eq_Nil filter_empty_conv)

lemma take1_filter_Cons:
  "take 1 (filter P xs) = d # ds \<Longrightarrow> d \<in> set xs \<and> P d \<and> ds = []"
proof -
  assume a: "take 1 (filter P xs) = d # ds"
  then obtain rest where "filter P xs = d # rest" and "ds = []"
    by (cases "filter P xs") auto
  then have "d \<in> set (filter P xs)" by simp
  with \<open>ds = []\<close> show ?thesis by simp
qed

lemma upload_record_duplicate:
  assumes "db_fault ev (FilesWhereHashUser digest uid) = None"
    and "\<exists>d \<in> set (files w). fileHash (snd d) = digest \<and> userId (snd d) = uid"
  shows "\<exists>d \<in> set (files w). fileHash (snd d) = digest \<and> userId (snd d) = uid \<and>
      upload_record ev uid upl digest cr w =
        (respond 409 (Duplicate ''File already exists'' (fst d) (fileName (snd d))), w)"
proof -
  let ?P = "\<lambda>d. fileHash (snd d) = digest \<and> userId (snd d) = uid"
  from assms(2) have "take 1 (filter ?P (files w)) \<noteq> []"
    by (auto simp: take_eq_Nil filter_empty_conv)
  then obtain d ds where t: "take 1 (filter ?P (files w)) = d # ds"
    by (cases "take 1 (filter ?P (files w))") auto
  then have d: "d \<in> set (files w)" "?P d"
    using take1_filter_Cons [of ?P "files w" d ds] by auto
  have "upload_record ev uid upl digest cr w =
        (respond 409 (Duplicate ''File already exists'' (fst d) (fileName (snd d))), w)"
    using assms(1) t by (simp add: upload_record_def firestore_call_def)
  with d show ?thesis by blast
qed

lemma upload_record_fresh:
  assumes "\<forall>c. db_fault ev c = None"
    and "\<forall>d \<in> set (files w). \<not> (fileHash (snd d) = digest \<and> userId (snd d) = uid)"
  shows "\<exists>r. upload_record ev uid upl digest cr w =
           (respond 201 (Uploaded (newDocId ev) r), w\<lparr>files := doc_add (newDocId ev) r (files w)\<rparr>) \<and>
         userId r = uid \<and> fileHash r = digest \<and> fileName r = originalname upl \<and>
         verificationStatus r = Pending \<and> publicId r = public_id cr \<and> transactionHash r = None"
proof -
  let ?P = "\<lambda>d. fileHash (snd d) = digest \<and> userId (snd d) = uid"
  let ?r = "\<lparr>userId = uid, fileName = originalname upl, fileHash = digest,
             fileSize = size_bytes upl, fileType = mimetype upl, uploadTime = clock ev 0,
             downloadURL = secure_url cr, publicId = public_id cr,
             walletAddress =
               (case doc_get uid (users w) of
                  None \<Rightarrow> ''unknown''
                | Some u \<Rightarrow> if userWalletAddress u = [] then ''unknown'' else userWalletAddress u),
             verificationStatus = Pending,
             storagePath = ''cloudinary:'' @ public_id cr,
             createdAt = clock ev 1, updatedAt = clock ev 2,
             transactionHash = None, verifiedAt = None\<rparr>"
  from assms(2) have "take 1 (filter ?P (files w)) = []"
    by (simp add: take1_filter_Nil)
  then have "upload_record ev uid upl digest cr w =
      (respond 201 (Uploaded (newDocId ev) ?r), w\<lparr>files := doc_add (newDocId ev) ?r (files w)\<rparr>)"
    using assms(1) by (simp add: upload_record_def firestore_call_def Let_def)
  then show ?thesis
    by (intro exI [of _ ?r]) simp
qed

text \<open>
  The two ways through the gate: a refused file is answered by the application's error
  handler and nothing is written; an accepted file is stored in Cloudinary, and the route
  goes on to the records with the store already changed.
\<close>

lemma upload_route_refused:
  "upload_single upl = Some e \<Longrightarrow> upload_route ev u (Some upl) w = (next_error ev e, w)"
  by (simp add: upload_route_def)

lemma upload_route_accepted:
  assumes "upload_single upl = None" and "db ev" and "cloud_fault ev = None"
    and "buffer upl = Some b"
  shows "upload_route ev u (Some upl) w =
      upload_record ev u upl (generateFileHash b) (cloud_result ev)
        (w\<lparr>assets := assets w @ [(public_id (cloud_result ev), b)]\<rparr>)"
  using assms by (simp add: upload_route_def upload_stream_def Let_def)

text \<open>
  While Cloudinary fails, the route answers its general error for every accepted file,
  whether the user has a record with the digest of the bytes or not, and writes nothing.
\<close>

lemma upload_route_cloud_failure:
  assumes "upload_single upl = None" and "db ev" and "cloud_fault ev = Some e"
    and "buffer upl = Some b"
  shows "upload_route ev u (Some upl) w =
      (respond 500 (Error ''Failed to upload to Cloudinary'' (Some e)), w)"
  using assms by (simp add: upload_route_def upload_stream_def Let_def)

text \<open>
  Claim C2, as amended. On a backend whose record store answers, for every user \<open>u\<close> and
  every uploaded file with bytes \<open>b\<close>: a file that the upload gate refuses (a media type
  outside the allowed list, or more than 50 MB) is answered with the gate's error and
  nothing is written. For a file that the gate accepts and that Cloudinary stores: if \<open>u\<close>
  has a record whose hash is the digest of \<open>b\<close>, the upload is answered 409 with the error
  \<^verbatim>\<open>File already exists\<close>, the id and the display name (\<^verbatim>\<open>existingFileName\<close>) of such a
  record, and the collection of records is left as it was; if \<open>u\<close> has no such record,
  whatever the records of other users, the upload is answered 201 and a new pending record
  of \<open>u\<close> with that digest is added.
\<close>

theorem upload_duplicate_per_user:
  assumes "db ev" and "\<forall>c. db_fault ev c = None" and "buffer upl = Some b"
  shows
    "(upload_single upl = Some e \<longrightarrow> upload_route ev u (Some upl) w = (next_error ev e, w)) \<and>
     (upload_single upl = None \<and> cloud_fault ev = None \<and>
      (\<exists>d \<in> set (files w). userId (snd d) = u \<and> fileHash (snd d) = generateFileHash b) \<longrightarrow>
        (\<exists>d \<in> set (files w). userId (snd d) = u \<and> fileHash (snd d) = generateFileHash b \<and>
           fst (upload_route ev u (Some upl) w) =
             respond 409 (Duplicate ''File already exists'' (fst d) (fileName (snd d)))) \<and>
        files (snd (upload_route ev u (Some upl) w)) = files w) \<and>
     (upload_single upl = None \<and> cloud_fault ev = None \<and>
      (\<forall>d \<in> set (files w). \<not> (userId (snd d) = u \<and> fileHash (snd d) = generateFileHash b)) \<longrightarrow>
        (\<exists>r. fst (upload_route ev u (Some upl) w) = respond 201 (Uploaded (newDocId ev) r) \<and>
             userId r = u \<and> fileHash r = generateFileHash b \<and> fileName r = originalname upl \<and>
             verificationStatus r = Pending \<and>
             files (snd (upload_route ev u (Some upl) w)) = doc_add (newDocId ev) r (files w)))"
proof (intro conjI impI)
  assume "upload_single upl = Some e"
  then show "upload_route ev u (Some upl) w = (next_error ev e, w)"
    by (rule upload_route_refused)
next
  let ?w1 = "w\<lparr>assets := assets w @ [(public_id (cloud_result ev), b)]\<rparr>"
  assume a: "upload_single upl = None \<and> cloud_fault ev = None \<and>
      (\<exists>d \<in> set (files w). userId (snd d) = u \<and> fileHash (snd d) = generateFileHash b)"
  then have route: "upload_route ev u (Some upl) w =
      upload_record ev u upl (generateFileHash b) (cloud_result ev) ?w1"
    using assms(1,3) by (intro upload_route_accepted) simp_all
  from a have "\<exists>d \<in> set (files ?w1). fileHash (snd d) = generateFileHash b \<and> userId (snd d) = u"
    by auto
  with assms(2) have "\<exists>d \<in> set (files ?w1). fileHash (snd d) = generateFileHash b \<and>
      userId (snd d) = u \<and>
      upload_record ev u upl (generateFileHash b) (cloud_result ev) ?w1 =
        (respond 409 (Duplicate ''File already exists'' (fst d) (fileName (snd d))), ?w1)"
    by (intro upload_record_duplicate) simp_all
  then obtain d where d: "d \<in> set (files ?w1)" "fileHash (snd d) = generateFileHash b"
    "userId (snd d) = u"
    "upload_record ev u upl (generateFileHash b) (cloud_result ev) ?w1 =
       (respond 409 (Duplicate ''File already exists'' (fst d) (fileName (snd d))), ?w1)"
    by (elim bexE conjE)
  then show "\<exists>d \<in> set (files w). userId (snd d) = u \<and> fileHash (snd d) = generateFileHash b \<and>
         fst (upload_route ev u (Some upl) w) =
           respond 409 (Duplicate ''File already exists'' (fst d) (fileName (snd d)))"
    using route by auto
  from d(4) route show "files (snd (upload_route ev u (Some upl) w)) = files w"
    by simp
next
  let ?w1 = "w\<lparr>assets := assets w @ [(public_id (cloud_result ev), b)]\<rparr>"
  assume a: "upload_single upl = None \<and> cloud_fault ev = None \<and>
      (\<forall>d \<in> set (files w). \<not> (userId (snd d) = u \<and> fileHash (snd d) = generateFileHash b))"
  then have route: "upload_route ev u (Some upl) w =
      upload_record ev u upl (generateFileHash b) (cloud_result ev) ?w1"
    using assms(1,3) by (intro upload_route_accepted) simp_all
  from a have "\<forall>d \<in> set (files ?w1). \<not> (fileHash (snd d) = generateFileHash b \<and> userId (snd d) = u)"
    by auto
  with assms(2) have "\<exists>r. upload_record ev u upl (generateFileHash b) (cloud_result ev) ?w1 =
         (respond 201 (Uploaded (newDocId ev) r),
          ?w1\<lparr>files := doc_add (newDocId ev) r (files ?w1)\<rparr>) \<and>
       userId r = u \<and> fileHash r = generateFileHash b \<and> fileName r = originalname upl \<and>
       verificationStatus r = Pending \<and> publicId r = public_id (cloud_result ev) \<and>
       transactionHash r = None"
    by (intro upload_record_fresh) simp_all
  then obtain r where r:
    "upload_record ev u upl (generateFileHash b) (cloud_result ev) ?w1 =
       (respond 201 (Uploaded (newDocId ev) r), ?w1\<lparr>files := doc_add (newDocId ev) r (files ?w1)\<rparr>)"
    "userId r = u" "fileHash r = generateFileHash b" "fileName r = originalname upl"
    "verificationStatus r = Pending"
    by (elim exE conjE)
  with route show "\<exists>r. fst (upload_route ev u (Some upl) w) = respond 201 (Uploaded (newDocId ev) r) \<and>
           userId r = u \<and> fileHash r = generateFileHash b \<and> fileName r = originalname upl \<and>
           verificationStatus r = Pending \<and>
           files (snd (upload_route ev u (Some upl) w)) = doc_add (newDocId ev) r (files w)"
    by (intro exI [of _ r]) simp
qed

lemma env0_sel:
  "db env0" "cloud_fault env0 = None" "\<forall>c. db_fault env0 c = None" "newDocId env0 = ''doc2''"
  "cloud_result env0 = \<lparr>secure_url = ''https://res.cloudinary.com/demo/raw/upload/truth-prevails/a2'',
         public_id = ''truth-prevails/a2''\<rparr>"
  "next_error env0 e = respond 500 (ErrorPage e)"
  by (simp_all add: env0_def)

lemma world0_sel:
  "files world0 = [(''doc1'', record0)]" "assets world0 = [(''truth-prevails/a1'', content0)]"
  by (simp_all add: world0_def)

lemma record0_sel:
  "userId record0 = ''alice''" "fileHash record0 = generateFileHash content0"
  "fileName record0 = ''report.pdf''" "verificationStatus record0 = Pending"
  by (simp_all add: record0_def)

lemma upload0_sel:
  "buffer upload0 = Some content0" "upload_single upload0 = None"
  "buffer (upload0\<lparr>mimetype := ''text/plain''\<rparr>) = Some content0"
  "upload_single (upload0\<lparr>mimetype := ''text/plain''\<rparr>) = Some ''Invalid file type''"
  by (simp_all add: upload0_def upload_single_def allowedTypes_def)

theorem upload_duplicate_per_user_witness:
  "upload_route env0 ''alice'' (Some (upload0\<lparr>mimetype := ''text/plain''\<rparr>)) world0 =
     (respond 500 (ErrorPage ''Invalid file type''), world0) \<and>
   fst (upload_route env0 ''alice'' (Some upload0) world0) =
     respond 409 (Duplicate ''File already exists'' ''doc1'' ''report.pdf'') \<and>
   files (snd (upload_route env0 ''alice'' (Some upload0) world0)) = files world0 \<and>
   (\<exists>r. fst (upload_route env0 ''bob'' (Some upload0) world0) = respond 201 (Uploaded ''doc2'' r) \<and>
        userId r = ''bob'' \<and> fileHash r = generateFileHash content0 \<and>
        verificationStatus r = Pending \<and>
        files (snd (upload_route env0 ''bob'' (Some upload0) world0)) =
          doc_add ''doc2'' r (files world0))"
proof -
  have dup: "upload_single upload0 = None \<and> cloud_fault env0 = None \<and>
      (\<exists>d \<in> set (files world0). userId (snd d) = ''alice'' \<and>
        fileHash (snd d) = generateFileHash content0)"
    by (simp add: world0_sel record0_sel upload0_sel env0_sel)
  have fresh: "upload_single upload0 = None \<and> cloud_fault env0 = None \<and>
      (\<forall>d \<in> set (files world0). \<not> (userId (snd d) = ''bob'' \<and>
        fileHash (snd d) = generateFileHash content0))"
    by (simp add: world0_sel record0_sel upload0_sel env0_sel)
  note refused = upload_duplicate_per_user [OF env0_sel(1) env0_sel(3) upload0_sel(3),
      where u = "''alice''" and w = world0 and e = "''Invalid file type''",
      THEN conjunct1, THEN mp, OF upload0_sel(4)]
  note alice = upload_duplicate_per_user [OF env0_sel(1) env0_sel(3) upload0_sel(1),
      where u = "''alice''" and w = world0, THEN conjunct2, THEN conjunct1, THEN mp, OF dup]
  note bob = upload_duplicate_per_user [OF env0_sel(1) env0_sel(3) upload0_sel(1),
      where u = "''bob''" and w = world0, THEN conjunct2, THEN conjunct2, THEN mp, OF fresh]
  from refused have 0: "upload_route env0 ''alice'' (Some (upload0\<lparr>mimetype := ''text/plain''\<rparr>)) world0 =
     (respond 500 (ErrorPage ''Invalid file type''), world0)"
    by (simp add: env0_sel)
  from alice have 1: "fst (upload_route env0 ''alice'' (Some upload0) world0) =
     respond 409 (Duplicate ''File already exists'' ''doc1'' ''report.pdf'')"
    by (auto simp: world0_sel record0_sel)
  from alice have 2: "files (snd (upload_route env0 ''alice'' (Some upload0) world0)) = files world0"
    by (rule conjunct2)
  from bob have 3: "\<exists>r. fst (upload_route env0 ''bob'' (Some upload0) world0) =
        respond 201 (Uploaded ''doc2'' r) \<and>
        userId r = ''bob'' \<and> fileHash r = generateFileHash content0 \<and>
        verificationStatus r = Pending \<and>
        files (snd (upload_route env0 ''bob'' (Some upload0) world0)) =
          doc_add ''doc2'' r (files world0)"
    by (auto simp: env0_sel)
  from 0 1 2 3 show ?thesis by (intro conjI)
qed

text \<open>
  The claim as first stated, at a concrete input: \<^verbatim>\<open>alice\<close> has the record \<^verbatim>\<open>doc1\<close> with the
  digest of the bytes, and sends them again declared as \<^verbatim>\<open>text/plain\<close>. The gate refuses
  the file; the answer is the error handler's, not the 409 of a duplicate.
\<close>

theorem upload_refused_type_counterexample:
  "files world0 = [(''doc1'', record0)] \<and> userId record0 = ''alice'' \<and>
   fileHash record0 = generateFileHash content0 \<and>
   buffer (upload0\<lparr>mimetype := ''text/plain''\<rparr>) = Some content0 \<and>
   upload_route env0 ''alice'' (Some (upload0\<lparr>mimetype := ''text/plain''\<rparr>)) world0 =
     (respond 500 (ErrorPage ''Invalid file type''), world0) \<and>
   statusCode (fst (upload_route env0 ''alice'' (Some (upload0\<lparr>mimetype := ''text/plain''\<rparr>)) world0))
     \<noteq> 409"
proof -
  have "upload_route env0 ''alice'' (Some (upload0\<lparr>mimetype := ''text/plain''\<rparr>)) world0 =
     (respond 500 (ErrorPage ''Invalid file type''), world0)"
    using upload0_sel(4) by (simp add: upload_route_refused env0_sel)
  then show ?thesis
    by (simp add: world0_sel record0_sel upload0_sel respond_def)
qed

text \<open>
  A duplicate is found only after the upload stream has completed: the answer is 409, the
  records are unchanged, and the asset has been stored.
\<close>

lemma upload_duplicate_writes_asset:
  assumes "upload_single upl = None" and "db ev" and "cloud_fault ev = None"
    and "db_fault ev (FilesWhereHashUser (generateFileHash b) u) = None"
    and "buffer upl = Some b"
    and "\<exists>d \<in> set (files w). userId (snd d) = u \<and> fileHash (snd d) = generateFileHash b"
  shows "statusCode (fst (upload_route ev u (Some upl) w)) = 409 \<and>
         assets (snd (upload_route ev u (Some upl) w)) = assets w @ [(public_id (cloud_result ev), b)] \<and>
         files (snd (upload_route ev u (Some upl) w)) = files w"
proof -
  let ?w1 = "w\<lparr>assets := assets w @ [(public_id (cloud_result ev), b)]\<rparr>"
  have route: "upload_route ev u (Some upl) w =
      upload_record ev u upl (generateFileHash b) (cloud_result ev) ?w1"
    using assms(1,2,3,5) by (rule upload_route_accepted)
  from assms(6) have "\<exists>d \<in> set (files ?w1). fileHash (snd d) = generateFileHash b \<and> userId (snd d) = u"
    by auto
  with assms(4) have "\<exists>d \<in> set (files ?w1). fileHash (snd d) = generateFileHash b \<and>
        userId (snd d) = u \<and>
        upload_record ev u upl (generateFileHash b) (cloud_result ev) ?w1 =
          (respond 409 (Duplicate ''File already exists'' (fst d) (fileName (snd d))), ?w1)"
    by (intro upload_record_duplicate) simp_all
  then obtain d where "d \<in> set (files ?w1)" "fileHash (snd d) = generateFileHash b"
      "userId (snd d) = u"
      "upload_record ev u upl (generateFileHash b) (cloud_result ev) ?w1 =
         (respond 409 (Duplicate ''File already exists'' (fst d) (fileName (snd d))), ?w1)"
    by (elim bexE conjE)
  with route show ?thesis by (simp add: respond_def)
qed

text \<open>
  Claim C5, the order of the duplicate check and of the write to object storage. The route
  stores the bytes in Cloudinary first and looks for the record of the same user and hash
  afterwards: the upload by \<^verbatim>\<open>alice\<close> of the content she has uploaded before is answered
  409, the records are left as they were, and the object store has gained a second asset
  with the same bytes.
\<close>

theorem upload_duplicate_stores_asset_first:
  "upload_route env0 ''alice'' (Some upload0) world0 =
     (respond 409 (Duplicate ''File already exists'' ''doc1'' ''report.pdf''),
      world0\<lparr>assets := [(''truth-prevails/a1'', content0), (''truth-prevails/a2'', content0)]\<rparr>) \<and>
   assets (snd (upload_route env0 ''alice'' (Some upload0) world0)) \<noteq> assets world0"
proof -
  let ?w1 = "world0\<lparr>assets := assets world0 @ [(''truth-prevails/a2'', content0)]\<rparr>"
  have "upload_route env0 ''alice'' (Some upload0) world0 =
      upload_record env0 ''alice'' upload0 (generateFileHash content0) (cloud_result env0)
        (world0\<lparr>assets := assets world0 @ [(public_id (cloud_result env0), content0)]\<rparr>)"
    using upload0_sel(2) env0_sel(1) env0_sel(2) upload0_sel(1) by (rule upload_route_accepted)
  then have route: "upload_route env0 ''alice'' (Some upload0) world0 =
      upload_record env0 ''alice'' upload0 (generateFileHash content0) (cloud_result env0) ?w1"
    by (simp add: env0_sel)
  have "upload_record env0 ''alice'' upload0 (generateFileHash content0) (cloud_result env0) ?w1 =
      (respond 409 (Duplicate ''File already exists'' ''doc1'' ''report.pdf''), ?w1)"
    using env0_sel(3) by (simp add: upload_record_def firestore_call_def world0_sel record0_sel)
  with route show ?thesis by (simp add: world0_sel)
qed

section \<open>The status of a record\<close>




lemma doc_get_distinct:
  "distinct (map fst docs) \<Longrightarrow> (doc_get i docs = Some r) = ((i, r) \<in> set docs)"
  by (simp add: doc_get_def)

lemma files_submitHashToBlockchain [simp]:
  "files (snd (submitHashToBlockchain ev h k w)) = files w"
  by (simp add: submitHashToBlockchain_def contract_submitHash_def
      split: option.splits sum.splits prod.splits)

lemma files_deleteFromCloudinary [simp]:
  "files (snd (deleteFromCloudinary ev p w)) = files w"
  by (simp add: deleteFromCloudinary_def split: option.splits)

lemma files_upload_stream [simp]: "files (snd (upload_stream ev b w)) = files w"
  by (simp add: upload_stream_def split: option.splits)






lemma submit_files_eq:
  "submitHashToBlockchain ev h k w = (res, w1) \<Longrightarrow> files w1 = files w"
  using files_submitHashToBlockchain [of ev h k w] by simp

lemma in_doc_update_same:
  "(j, r') \<in> set (doc_update j f docs) \<Longrightarrow> \<exists>r. (j, r) \<in> set docs \<and> r' = f r"
  by (auto simp: doc_update_def split: if_splits)















section \<open>Properties of the wallet blob\<close>

subsection \<open>Strings through \<^verbatim>\<open>stringify\<close> and \<^verbatim>\<open>parse\<close>\<close>

lemma hexval_hexdigit_all: "\<forall>m \<in> set [0 ..< 16]. hexval (hexdigit m) = Some m"
  by code_simp

lemma hexval_hexdigit: "m < 16 \<Longrightarrow> hexval (hexdigit m) = Some m"
  using hexval_hexdigit_all by simp

lemma hexval_zero: "hexval (CHR ''0'') = Some 0"
  by (simp add: hexval_def)

lemma hex4_control:
  "n < 32 \<Longrightarrow> hex4 (CHR ''0'') (CHR ''0'') (hexdigit (n div 16)) (hexdigit (n mod 16)) = Some n"
  by (simp add: hex4_def hexval_zero hexval_hexdigit)

lemma string_body_QuoteJSONChar:
  "string_body (QuoteJSONChar c @ cs) =
     (case string_body cs of None \<Rightarrow> None | Some (s, r) \<Rightarrow> Some (c # s, r))"
proof (cases "(of_char c :: nat) < 32")
  case True
  then have h: "hex4 (CHR ''0'') (CHR ''0'') (hexdigit (of_char c div 16)) (hexdigit (of_char c mod 16)) =
      Some (of_char c)"
    by (rule hex4_control)
  from True have ne: "c \<noteq> CHR 0x22" "c \<noteq> CHR 0x5C" by auto
  show ?thesis
    using True ne h by (auto simp: QuoteJSONChar_def unescape_def split: option.splits)
next
  case False
  then show ?thesis
    by (auto simp: QuoteJSONChar_def unescape_def split: option.splits)
qed

lemma string_body_quote:
  "string_body (concat (map QuoteJSONChar s) @ CHR 0x22 # rest) = Some (s, rest)"
  by (induction s) (simp_all add: string_body_QuoteJSONChar)

lemma JSON_stringify_wallet:
  "JSON_stringify (wallet_json W) =
     CHR ''{'' # CHR 0x22 # ''address'' @ CHR 0x22 # CHR '':'' # CHR 0x22 #
       concat (map QuoteJSONChar (wi_address W)) @
     CHR 0x22 # CHR '','' # CHR 0x22 # ''privateKey'' @ CHR 0x22 # CHR '':'' # CHR 0x22 #
       concat (map QuoteJSONChar (privateKey W)) @
     CHR 0x22 # CHR '','' # CHR 0x22 # ''mnemonic'' @ CHR 0x22 # CHR '':'' # CHR 0x22 #
       concat (map QuoteJSONChar (mnemonic W)) @ [CHR 0x22, CHR ''}'']"
  by (simp add: wallet_json_def QuoteJSONString_def QuoteJSONChar_def)

lemma parse_value_wallet:
  "parse_value (Suc (Suc (Suc (Suc (Suc n))))) (JSON_stringify (wallet_json W)) =
     Parsed (wallet_json W) []"
  by (simp only: JSON_stringify_wallet)
    (simp add: skip_ws_def is_ws_def string_body_quote put_member_def unescape_def
      wallet_json_def)

lemma JSON_parse_stringify_wallet:
  "JSON_parse (JSON_stringify (wallet_json W)) = Inr (wallet_json W)"
proof -
  have "5 \<le> 2 * length (JSON_stringify (wallet_json W)) + 2"
    by (simp add: JSON_stringify_wallet)
  then obtain n where "2 * length (JSON_stringify (wallet_json W)) + 2 = 5 + n"
    using le_Suc_ex by blast
  then have "2 * length (JSON_stringify (wallet_json W)) + 2 = Suc (Suc (Suc (Suc (Suc n))))"
    by simp
  then show ?thesis
    by (simp only: JSON_parse_def parse_value_wallet) (simp add: skip_ws_def)
qed

lemma JSON_parse_empty: "JSON_parse [] = Inl ''Unexpected end of JSON input''"
  by (simp add: JSON_parse_def skip_ws_def)

subsection \<open>The bound of the parser\<close>

lemma string_body_length: "string_body cs = Some (s, r) \<Longrightarrow> length r < length cs"
proof (induction cs arbitrary: s r rule: string_body.induct)
  case 1
  then show ?case by simp
next
  case (2 c cs)
  then show ?case
    by (fastforce split: if_splits list.splits option.splits prod.splits)
qed

lemma skip_ws_length: "length (skip_ws s) \<le> length s"
  by (simp add: skip_ws_def length_dropWhile_le)

lemma digits1_length: "digits1 s = Some (d, r) \<Longrightarrow> length r \<le> length s"
  by (auto simp: digits1_def length_dropWhile_le split: if_splits)

lemma number_literal_length: "number_literal s = Some (l, r) \<Longrightarrow> length r \<le> length s"
  by (auto simp: number_literal_def Let_def split: if_splits option.splits prod.splits
      dest!: digits1_length)

lemma skip_ws_Cons_length: "skip_ws s = c # cs \<Longrightarrow> length cs < length s"
  using skip_ws_length [of s] by simp

lemma take1_drop1_length: "take 1 xs = [c] \<Longrightarrow> length (drop 1 xs) < length xs"
  by (cases xs) simp_all

lemma parse_rest_length:
  "parse_value n s = Parsed v r \<Longrightarrow> length r \<le> length s"
  "parse_elements n s vs = Parsed v r \<Longrightarrow> length r \<le> length s"
  "parse_members n s ms = Parsed v r \<Longrightarrow> length r \<le> length s"
proof (induction n s and n s vs and n s ms arbitrary: v r and v r and v r
    rule: parse_value_parse_elements_parse_members.induct)
  case (1 s)
  then show ?case by simp
next
  case (2 n s)
  show ?case
  proof (cases "skip_ws s")
    case Nil
    with 2(3) show ?thesis by simp
  next
    case (Cons c cs)
    note len = skip_ws_Cons_length [OF Cons]
    have l1: "length (drop k (c # cs)) \<le> length s" for k
      using skip_ws_length [of s] Cons by simp
    have l2: "length (drop 1 (skip_ws cs)) \<le> length s"
      using skip_ws_length [of cs] len by simp
    from 2(3) Cons show ?thesis
      using 2(1) [OF Cons, of v r] 2(2) [OF Cons, of v r] len l1 l2
      by (auto split: if_splits option.splits prod.splits
          dest!: string_body_length number_literal_length)
  qed
next
  case (3 s vs)
  then show ?case by simp
next
  case (4 n s vs)
  from 4(3) obtain v1 r1 where p: "parse_value n s = Parsed v1 r1"
    by (auto split: parsed.splits)
  then have a: "length r1 \<le> length s" by (rule 4(1))
  have b: "length (drop 1 (skip_ws r1)) \<le> length s"
    using skip_ws_length [of r1] a by simp
  from 4(3) p show ?case
    using 4(2) [OF p, of v r] b
    by (auto split: if_splits)
next
  case (5 s ms)
  then show ?case by simp
next
  case (6 n s ms)
  from 6(3) have t: "take 1 (skip_ws s) = [CHR 0x22]"
    by (auto split: if_splits)
  with 6(3) obtain k rest where sb: "string_body (drop 1 (skip_ws s)) = Some (k, rest)"
    by (auto split: option.splits)
  with 6(3) t have c: "take 1 (skip_ws rest) = '':''"
    by (auto split: if_splits)
  with 6(3) t sb obtain v1 r1 where p: "parse_value n (drop 1 (skip_ws rest)) = Parsed v1 r1"
    by (auto split: parsed.splits)
  have a0: "length rest < length s"
    using string_body_length [OF sb] skip_ws_length [of s] by simp
  have a1: "length (drop 1 (skip_ws rest)) \<le> length s"
    using skip_ws_length [of rest] a0 by simp
  have a: "length r1 \<le> length s"
    using 6(1) [OF t sb refl c p] a1 by simp
  have b: "length (drop 1 (skip_ws r1)) \<le> length s"
    using skip_ws_length [of r1] a by simp
  from 6(3) t sb c p show ?case
    using 6(2) [OF t sb refl c p, of v r] b
    by (auto split: if_splits)
qed


lemma parse_fuel:
  "2 * length s + 1 \<le> n \<Longrightarrow> parse_value n s \<noteq> OutOfFuel"
  "2 * length s + 2 \<le> n \<Longrightarrow> parse_elements n s vs \<noteq> OutOfFuel"
  "2 * length s + 2 \<le> n \<Longrightarrow> parse_members n s ms \<noteq> OutOfFuel"
proof (induction n s and n s vs and n s ms
    rule: parse_value_parse_elements_parse_members.induct)
  case (1 s)
  then show ?case by simp
next
  case (2 n s)
  show ?case
  proof (cases "skip_ws s")
    case Nil
    then show ?thesis by simp
  next
    case (Cons c cs)
    note len = skip_ws_Cons_length [OF Cons]
    with 2(3) have f: "2 * length cs + 2 \<le> n" by simp
    from Cons show ?thesis
      using 2(1) [OF Cons _ _ _ f] 2(2) [OF Cons _ _ _ _ f]
      by (auto split: if_splits option.splits prod.splits)
  qed
next
  case (3 s vs)
  then show ?case by simp
next
  case (4 n s vs)
  from 4(3) have f: "2 * length s + 1 \<le> n" by simp
  have v: "parse_value n s \<noteq> OutOfFuel" using f by (rule 4(1))
  show ?case
  proof (cases "parse_value n s")
    case (Parsed v1 r1)
    then have a: "length r1 \<le> length s" by (rule parse_rest_length)
    show ?thesis
    proof (cases "take 1 (skip_ws r1) = '',''")
      case True
      then have "length (drop 1 (skip_ws r1)) < length (skip_ws r1)"
        by (rule take1_drop1_length)
      with a skip_ws_length [of r1] 4(3) have "2 * length (drop 1 (skip_ws r1)) + 2 \<le> n"
        by simp
      then have "parse_elements n (drop 1 (skip_ws r1)) (vs @ [v1]) \<noteq> OutOfFuel"
        using Parsed True by (intro 4(2)) simp_all
      with Parsed True show ?thesis by simp
    next
      case False
      with Parsed show ?thesis by simp
    qed
  next
    case (SyntaxError e)
    then show ?thesis by simp
  next
    case OutOfFuel
    with v show ?thesis by simp
  qed
next
  case (5 s ms)
  then show ?case by simp
next
  case (6 n s ms)
  show ?case
  proof (cases "take 1 (skip_ws s) = [CHR 0x22]")
    case False
    then show ?thesis by simp
  next
    case t: True
    show ?thesis
    proof (cases "string_body (drop 1 (skip_ws s))")
      case None
      with t show ?thesis by simp
    next
      case (Some kr)
      obtain k rest where kr: "kr = (k, rest)" by (cases kr)
      with Some have sb: "string_body (drop 1 (skip_ws s)) = Some (k, rest)" by simp
      have a0: "length rest < length s"
        using string_body_length [OF sb] skip_ws_length [of s] by simp
      show ?thesis
      proof (cases "take 1 (skip_ws rest) = '':''")
        case False
        with t sb show ?thesis by simp
      next
        case c: True
        have a1: "length (drop 1 (skip_ws rest)) \<le> length s"
          using skip_ws_length [of rest] a0 by simp
        with a0 6(3) have f: "2 * length (drop 1 (skip_ws rest)) + 1 \<le> n"
          using take1_drop1_length [OF c] skip_ws_length [of rest] by simp
        have v: "parse_value n (drop 1 (skip_ws rest)) \<noteq> OutOfFuel"
          using t sb c f by (intro 6(1)) simp_all
        show ?thesis
        proof (cases "parse_value n (drop 1 (skip_ws rest))")
          case (Parsed v1 r1)
          then have a: "length r1 \<le> length (drop 1 (skip_ws rest))" by (rule parse_rest_length)
          show ?thesis
          proof (cases "take 1 (skip_ws r1) = '',''")
            case True
            then have "length (drop 1 (skip_ws r1)) < length (skip_ws r1)"
              by (rule take1_drop1_length)
            with a a1 skip_ws_length [of r1] 6(3)
            have "2 * length (drop 1 (skip_ws r1)) + 2 \<le> n"
              by simp
            then have "parse_members n (drop 1 (skip_ws r1)) (put_member k v1 ms) \<noteq> OutOfFuel"
              using t sb c Parsed True by (intro 6(2)) simp_all
            with t sb c Parsed True show ?thesis by simp
          next
            case False
            with t sb c Parsed show ?thesis by simp
          qed
        next
          case (SyntaxError e)
          with t sb c show ?thesis by simp
        next
          case OutOfFuel
          with v show ?thesis by simp
        qed
      qed
    qed
  qed
qed

text \<open>The parser returns a value or a syntax error for every text.\<close>

lemma JSON_parse_fuel: "parse_value (2 * length s + 2) s \<noteq> OutOfFuel"
  by (rule parse_fuel) simp

subsection \<open>The round trip\<close>

text \<open>
  Claim C9. For every wallet \<open>W\<close>, every secret \<open>S\<close> and every salt, decrypting the blob that
  \<^verbatim>\<open>encryptWalletInfo\<close> makes of \<open>W\<close> under \<open>S\<close> with the same secret returns the wallet:
  the object with the address, the private key and the mnemonic of \<open>W\<close>. With any other
  secret \<open>S'\<close> the decryption throws the syntax error of \<^verbatim>\<open>JSON.parse\<close>, so it returns no
  value, and in particular no wallet \<open>W'\<close>. The methods of the client's service do the same
  as the functions of the backend.
\<close>

theorem wallet_round_trip:
  "decryptWalletInfo (encryptWalletInfo salt W S) S = Inr (wallet_json W) \<and>
   (S' \<noteq> S \<longrightarrow>
      decryptWalletInfo (encryptWalletInfo salt W S) S' = Inl ''Unexpected end of JSON input'' \<and>
      decryptWalletInfo (encryptWalletInfo salt W S) S' \<noteq> Inr (wallet_json W')) \<and>
   BlockchainService_encryptWalletInfo S salt W = encryptWalletInfo salt W S \<and>
   BlockchainService_decryptWalletInfo S' (encryptWalletInfo salt W S) =
     decryptWalletInfo (encryptWalletInfo salt W S) S'"
  by (simp add: decryptWalletInfo_def encryptWalletInfo_def CryptoJS_AES_encrypt_def
      CryptoJS_AES_decrypt_def BlockchainService_encryptWalletInfo_def
      BlockchainService_decryptWalletInfo_def JSON_parse_stringify_wallet JSON_parse_empty Let_def)

theorem wallet_round_trip_witness:
  "decryptWalletInfo (encryptWalletInfo ''01020304'' wallet0 ''default-key'') ''default-key'' =
     Inr (JObject [(''address'', JString ''0x70997970C51812dc3A010C7d01b50e0d17dc79C8''),
        (''privateKey'',
         JString ''0x59c6995e998f97a5a0044966f0945389dc9e86dae88c7a8412f4603b6b78690d''),
        (''mnemonic'', JString ''test test test test test test test test test test test junk'')]) \<and>
   decryptWalletInfo (encryptWalletInfo ''01020304'' wallet0 ''default-key'') ''wrong-key'' =
     Inl ''Unexpected end of JSON input''"
proof -
  note t = wallet_round_trip [where salt = "''01020304''" and W = wallet0
      and S = "''default-key''" and S' = "''wrong-key''" and W' = wallet0]
  have ne: "''wrong-key'' \<noteq> ''default-key''" by simp
  from t [THEN conjunct1]
  have 1: "decryptWalletInfo (encryptWalletInfo ''01020304'' wallet0 ''default-key'') ''default-key'' =
     Inr (JObject [(''address'', JString ''0x70997970C51812dc3A010C7d01b50e0d17dc79C8''),
        (''privateKey'',
         JString ''0x59c6995e998f97a5a0044966f0945389dc9e86dae88c7a8412f4603b6b78690d''),
        (''mnemonic'', JString ''test test test test test test test test test test test junk'')])"
    by (simp add: wallet_json_def wallet0_def)
  from t [THEN conjunct2, THEN conjunct1, THEN mp, OF ne, THEN conjunct1]
  have 2: "decryptWalletInfo (encryptWalletInfo ''01020304'' wallet0 ''default-key'') ''wrong-key'' =
     Inl ''Unexpected end of JSON input''" .
  from 1 2 show ?thesis by (rule conjI)
qed

section \<open>Properties of the tamper heuristics\<close>

text \<open>
  The two fixed outputs: an image in which the parser finds no metadata, and a PDF whose
  decoded header does not start with the signature.
\<close>

lemma analyzeImageMetadata_no_metadata:
  "exifr_parse buf = Inr None \<Longrightarrow>
     status (analyzeImageMetadata exifr_parse buf name) = Suspicious \<and>
     confidence (analyzeImageMetadata exifr_parse buf name) = 7 / 10"
  by (simp add: analyzeImageMetadata_def)

lemma analyzePDFMetadata_decoded_header:
  "\<not> startsWith (toString_ascii buf 0 8) ''%PDF-'' \<Longrightarrow>
     status (analyzePDFMetadata buf name) = Suspicious \<and>
     confidence (analyzePDFMetadata buf name) = 0"
  by (simp add: analyzePDFMetadata_def Let_def)

lemma percent_PDF_chars:
  "[char_of (37::nat), char_of (80::nat), char_of (68::nat), char_of (70::nat), char_of (45::nat),
    char_of (49::nat), char_of (46::nat), char_of (52::nat)] = ''%PDF-1.4''"
  by code_simp

lemma toString_ascii_highbit:
  "toString_ascii (mf_buffer highbit_pdf) 0 n = take n ''%PDF-1.4''"
  by (simp add: toString_ascii_def highbit_pdf_def take_map [symmetric] percent_PDF_chars)

text \<open>
  Claim C8, the signature check of the PDF path. The check is made on the first eight
  bytes decoded as ASCII, and that decoding clears the highest bit of every byte: the file
  whose bytes are \<^verbatim>\<open>A5 D0 C4 C6 AD B1 AE B4\<close> does not begin with the bytes of \<^verbatim>\<open>%PDF-\<close>,
  and its analysis is clean with confidence 0.8.
\<close>

theorem pdf_signature_high_bit:
  "take 5 (mf_buffer highbit_pdf) \<noteq> [0x25, 0x50, 0x44, 0x46, 0x2D] \<and>
   status (analyze_file parse0 (clock0 0) highbit_pdf) = Clean \<and>
   confidence (analyze_file parse0 (clock0 0) highbit_pdf) = 8 / 10"
proof -
  have 1: "take 5 (mf_buffer highbit_pdf) \<noteq> [0x25, 0x50, 0x44, 0x46, 0x2D]"
    by (simp add: highbit_pdf_def)
  have m: "mf_mimetype highbit_pdf = ''application/pdf''"
    by (simp add: highbit_pdf_def)
  have h: "startsWith (toString_ascii (mf_buffer highbit_pdf) 0 8) ''%PDF-''"
    by (simp add: toString_ascii_highbit startsWith_def)
  have f: "filter (\<lambda>t. str_includes (toString_ascii (mf_buffer highbit_pdf) 0 1000) t) suspiciousTerms = []"
    by (simp add: toString_ascii_highbit) code_simp
  have "analyzePDFMetadata (mf_buffer highbit_pdf) (mf_originalname highbit_pdf) =
      \<lparr>status = Clean, details = ''PDF appears to be authentic'', confidence = 0.8,
       metadata = Some PdfMetadata, fileInfo = None\<rparr>"
    by (simp add: analyzePDFMetadata_def Let_def h f)
  then have "status (analyze_file parse0 (clock0 0) highbit_pdf) = Clean"
    "confidence (analyze_file parse0 (clock0 0) highbit_pdf) = 8 / 10"
    by (simp_all add: analyze_file_def m startsWith_def)
  with 1 show ?thesis by (intro conjI)
qed

end
